theory Spec2Isabelle
  imports Complex_Main "HOL-Library.Log_Nat"
begin

section \<open>Numbers, vectors and bounds\<close>

text \<open>
  The strand engine computes with JavaScript numbers, which are IEEE 754 doubles. A
  number is modelled as the real it denotes. The sums and differences of the segment
  code (\<open>Bounds2\<close>, \<open>ShapeSegment\<close>, \<open>FlatSegment\<close>, \<open>SquareSegment\<close>) are rounded as the
  double operations round them: \<open>fl\<close> takes a real to the nearest double, ties to the
  even significand, with 53 significant bits above \<open>2\<^sup>-\<^sup>1\<^sup>0\<^sup>2\<^sup>2\<close> and the fixed spacing
  \<open>2\<^sup>-\<^sup>1\<^sup>0\<^sup>7\<^sup>4\<close> below. A result beyond the largest double, which JavaScript turns into
  \<open>Infinity\<close>, is outside the model. The arithmetic of \<open>MessengerRna\<close> itself is over the
  reals; the one place where it divides, \<open>getProportionOfRnaTranslated\<close>, is modelled with
  the non-finite results of a JavaScript division written out.
\<close>

definition pow2 :: "int \<Rightarrow> real" where
  "pow2 k = (if 0 \<le> k then 2 ^ nat k else 1 / 2 ^ nat (- k))"

text \<open>The binary exponent of a nonzero number: \<open>2\<^sup>e \<le> |x| < 2\<^sup>e\<^sup>+\<^sup>1\<close>.\<close>

definition exponentOf :: "real \<Rightarrow> int" where
  "exponentOf x =
     (if 1 \<le> \<bar>x\<bar> then bitlen \<lfloor>\<bar>x\<bar>\<rfloor> - 1 else - bitlen (\<lceil>1 / \<bar>x\<bar>\<rceil> - 1))"

text \<open>The spacing of the doubles around a number.\<close>

definition ulp :: "real \<Rightarrow> real" where
  "ulp x = pow2 (max (exponentOf x) (- 1022) - 52)"

definition roundTiesToEven :: "real \<Rightarrow> int" where
  "roundTiesToEven q =
     (let f = \<lfloor>q\<rfloor>
      in if q - of_int f < 1 / 2 then f
         else if 1 / 2 < q - of_int f then f + 1
         else if even f then f else f + 1)"

definition fl :: "real \<Rightarrow> real" where
  "fl x = (if x = 0 then 0 else of_int (roundTiesToEven (x / ulp x)) * ulp x)"

text \<open>\<open>a + b\<close> and \<open>a - b\<close> on doubles.\<close>

definition fadd :: "real \<Rightarrow> real \<Rightarrow> real" where
  "fadd a b = fl (a + b)"

definition fsub :: "real \<Rightarrow> real \<Rightarrow> real" where
  "fsub a b = fl (a - b)"

text \<open>
  The unit roundoff and half the smallest positive double: rounding a number \<open>x\<close> moves
  it by at most \<open>unitRoundoff * |x| + tiny\<close>. The slack at a magnitude \<open>M\<close> bounds what the
  handful of roundings of one segment operation add up to when the coordinates, the
  capacity and the length involved are at most \<open>M\<close> in magnitude: it is
  \<open>2\<^sup>-\<^sup>4\<^sup>6 * M + 2\<^sup>-\<^sup>1\<^sup>0\<^sup>6\<^sup>8\<close>.
\<close>

definition unitRoundoff :: real where
  "unitRoundoff = pow2 (- 53)"

definition tiny :: real where
  "tiny = pow2 (- 1075)"

definition slack :: "real \<Rightarrow> real" where
  "slack M = 128 * (unitRoundoff * M + tiny)"

record Vector2 =
  vx :: real
  vy :: real

definition distance :: "Vector2 \<Rightarrow> Vector2 \<Rightarrow> real" where
  "distance p q = sqrt ((vx p - vx q)\<^sup>2 + (vy p - vy q)\<^sup>2)"

record Bounds2 =
  minX :: real
  minY :: real
  maxX :: real
  maxY :: real

definition setMinMax :: "real \<Rightarrow> real \<Rightarrow> real \<Rightarrow> real \<Rightarrow> Bounds2" where
  "setMinMax x0 y0 x1 y1 = \<lparr>minX = x0, minY = y0, maxX = x1, maxY = y1\<rparr>"

text \<open>\<open>bounds.x\<close> and \<open>bounds.y\<close> are the minimum corner of a bounds object.\<close>

definition getX :: "Bounds2 \<Rightarrow> real" where
  "getX b = minX b"

definition getY :: "Bounds2 \<Rightarrow> real" where
  "getY b = minY b"

definition getWidth :: "Bounds2 \<Rightarrow> real" where
  "getWidth b = fsub (maxX b) (minX b)"

definition getHeight :: "Bounds2 \<Rightarrow> real" where
  "getHeight b = fsub (maxY b) (minY b)"

datatype js_number = Finite real | PosInfinity | NegInfinity | NaN

text \<open>
  \<open>a / b\<close> on finite numbers. The divisor of the source is a sum that starts at \<open>0\<close>,
  so a zero divisor is the positive zero.
\<close>

definition js_divide :: "real \<Rightarrow> real \<Rightarrow> js_number" where
  "js_divide a b =
     (if b \<noteq> 0 then Finite (a / b)
      else if a > 0 then PosInfinity
      else if a < 0 then NegInfinity
      else NaN)"

text \<open>\<open>Math.max( v, 0 )\<close>: a \<open>NaN\<close> argument makes the result \<open>NaN\<close>.\<close>

definition js_max_zero :: "js_number \<Rightarrow> js_number" where
  "js_max_zero v =
     (case v of
        Finite r \<Rightarrow> Finite (max r 0)
      | PosInfinity \<Rightarrow> PosInfinity
      | NegInfinity \<Rightarrow> Finite 0
      | NaN \<Rightarrow> NaN)"

fun js_nonnegative :: "js_number \<Rightarrow> bool" where
  "js_nonnegative (Finite r) = (0 \<le> r)"
| "js_nonnegative PosInfinity = True"
| "js_nonnegative NegInfinity = False"
| "js_nonnegative NaN = False"

fun js_greater_than :: "js_number \<Rightarrow> real \<Rightarrow> bool" where
  "js_greater_than (Finite r) c = (c < r)"
| "js_greater_than PosInfinity c = True"
| "js_greater_than NegInfinity c = False"
| "js_greater_than NaN c = False"

section \<open>Arrays of object references\<close>

type_synonym ref = nat

text \<open>\<open>Array.prototype.indexOf\<close>: the first position of the element, \<open>-1\<close> when absent.\<close>

fun indexOf :: "'a list \<Rightarrow> 'a \<Rightarrow> int" where
  "indexOf [] a = - 1"
| "indexOf (x # xs) a =
     (if x = a then 0
      else (let i = indexOf xs a in if i < 0 then - 1 else i + 1))"

text \<open>
  \<open>Array.prototype.splice( index, 1 )\<close>: a negative index counts from the end of the
  array, so \<open>splice( -1, 1 )\<close> removes the last element.
\<close>

definition splice1 :: "int \<Rightarrow> 'a list \<Rightarrow> 'a list" where
  "splice1 i xs =
     (let n = int (length xs);
          start = (if i < 0 then max (n + i) 0 else min i n)
      in take (nat start) xs @ drop (nat start + 1) xs)"

text \<open>
  Modelled from the spec: the list queries and insertions of \<open>WindingBiomolecule\<close>
  (\<open>getPreviousShapeSegment\<close>, \<open>getNextShapeSegment\<close>, \<open>insertAfterShapeSegment\<close>,
  \<open>insertBeforeShapeSegment\<close>), whose file is not among the sources. The spec names the
  output segment "previous in list" and the input segment "next in list", with none at
  either end of the list, and has a new segment "inserted immediately after this one".
  A segment that is not in the list has no neighbour, and the spec names no place for an
  insertion next to it: the insertions answer \<open>None\<close> there.
\<close>

fun getPreviousItem :: "'a list \<Rightarrow> 'a \<Rightarrow> 'a option" where
  "getPreviousItem [] a = None"
| "getPreviousItem [x] a = None"
| "getPreviousItem (x # y # xs) a =
     (if x = a then None
      else if y = a then Some x
      else getPreviousItem (y # xs) a)"

fun getNextItem :: "'a list \<Rightarrow> 'a \<Rightarrow> 'a option" where
  "getNextItem [] a = None"
| "getNextItem [x] a = None"
| "getNextItem (x # y # xs) a =
     (if x = a then Some y else getNextItem (y # xs) a)"

fun insertAfter :: "'a \<Rightarrow> 'a \<Rightarrow> 'a list \<Rightarrow> 'a list option" where
  "insertAfter e n [] = None"
| "insertAfter e n (x # xs) =
     (if x = e then Some (x # n # xs)
      else map_option ((#) x) (insertAfter e n xs))"

fun insertBefore :: "'a \<Rightarrow> 'a \<Rightarrow> 'a list \<Rightarrow> 'a list option" where
  "insertBefore e n [] = None"
| "insertBefore e n (x # xs) =
     (if x = e then Some (n # x # xs)
      else map_option ((#) x) (insertBefore e n xs))"

section \<open>Shape segments\<close>

datatype SegmentKind = Flat | Square

record AttachmentSite =
  locationProperty :: Vector2
  attachedOrAttachingMolecule :: "nat option"

text \<open>
  A shape segment object. \<open>bounds\<close>, \<open>capacity\<close> and \<open>attachmentSite\<close> are the fields of
  the base class that \<open>FlatSegment\<close> reads and writes.

  Modelled from the spec: \<open>SquareSegment\<close>, whose file is not among the sources. The spec
  derives a square segment's contained length from its bounding box through the winding
  algorithm's conversion; the model keeps that length in \<open>squareLength\<close> and leaves the
  conversion out.
\<close>

record ShapeSegment =
  kind :: SegmentKind
  bounds :: Bounds2
  capacity :: real
  squareLength :: real
  attachmentSite :: AttachmentSite

text \<open>
  What the sources at hand use without defining: the constants \<open>LEADER_LENGTH\<close> and
  \<open>FLOATING_POINT_COMP_FACTOR\<close>, the capacity a segment has before \<open>setCapacity\<close> is
  called, whether the \<open>assert\<close> hook is installed, the place that
  \<open>updateAttachmentSiteLocation\<close> gives the attachment site of a segment, and the offsets
  by which \<open>realignSegmentsFrom\<close> moves the segments. They are parameters of the model.
\<close>

record Params =
  LEADER_LENGTH :: real
  FLOATING_POINT_COMP_FACTOR :: real
  DEFAULT_CAPACITY :: real
  assertionsEnabled :: bool
  siteLocation :: "ShapeSegment \<Rightarrow> Vector2"
  realignShift :: "ref \<Rightarrow> ref list \<Rightarrow> (ref \<Rightarrow> ShapeSegment) \<Rightarrow> ref \<Rightarrow> Vector2"

text \<open>
  The segment objects of one strand, by reference, and the strand's ordered segment list.
  An object that has been spliced out of the list stays in the heap: the code goes on
  reading and writing it.
\<close>

record SegStore =
  heap :: "ref \<Rightarrow> ShapeSegment"
  nextRef :: ref
  shapeSegments :: "ref list"

datatype error = TypeError | AssertionError | NotInList | NotFlat

definition bindE :: "error + 'a \<Rightarrow> ('a \<Rightarrow> error + 'b) \<Rightarrow> error + 'b" where
  "bindE m f = (case m of Inl e \<Rightarrow> Inl e | Inr v \<Rightarrow> f v)"

definition modify :: "ref \<Rightarrow> (ShapeSegment \<Rightarrow> ShapeSegment) \<Rightarrow> SegStore \<Rightarrow> SegStore" where
  "modify a f st = st\<lparr>heap := (heap st)(a := f (heap st a))\<rparr>"

definition alloc :: "ShapeSegment \<Rightarrow> SegStore \<Rightarrow> ref \<times> SegStore" where
  "alloc s st = (nextRef st, st\<lparr>heap := (heap st)(nextRef st := s), nextRef := Suc (nextRef st)\<rparr>)"

text \<open>\<open>getContainedLength\<close>: for a flat segment the width of its bounds.\<close>

definition getContainedLength :: "ShapeSegment \<Rightarrow> real" where
  "getContainedLength s =
     (case kind s of Flat \<Rightarrow> getWidth (bounds s) | Square \<Rightarrow> squareLength s)"

text \<open>
  Modelled from the spec: the accessors of the base class \<open>ShapeSegment\<close>. The remaining
  capacity is the room left below the capacity; the corners are those of the bounds.
\<close>

definition getRemainingCapacity :: "ShapeSegment \<Rightarrow> real" where
  "getRemainingCapacity s = fsub (capacity s) (getContainedLength s)"

definition getLowerRightCornerPos :: "ShapeSegment \<Rightarrow> Vector2" where
  "getLowerRightCornerPos s = \<lparr>vx = maxX (bounds s), vy = minY (bounds s)\<rparr>"

definition getUpperLeftCornerPos :: "ShapeSegment \<Rightarrow> Vector2" where
  "getUpperLeftCornerPos s = \<lparr>vx = minX (bounds s), vy = maxY (bounds s)\<rparr>"

definition setCapacity :: "real \<Rightarrow> ShapeSegment \<Rightarrow> ShapeSegment" where
  "setCapacity c s = s\<lparr>capacity := c\<rparr>"

definition updateAttachmentSiteLocation :: "Params \<Rightarrow> ShapeSegment \<Rightarrow> ShapeSegment" where
  "updateAttachmentSiteLocation K s =
     s\<lparr>attachmentSite := (attachmentSite s)\<lparr>locationProperty := siteLocation K s\<rparr>\<rparr>"

definition translateSegment :: "Vector2 \<Rightarrow> ShapeSegment \<Rightarrow> ShapeSegment" where
  "translateSegment v s =
     s\<lparr>bounds := setMinMax (minX (bounds s) + vx v) (minY (bounds s) + vy v)
                           (maxX (bounds s) + vx v) (maxY (bounds s) + vy v)\<rparr>"

text \<open>The constructor of the base class: an unoccupied attachment site, the default capacity.\<close>

definition ShapeSegment_init :: "Params \<Rightarrow> SegmentKind \<Rightarrow> Vector2 \<Rightarrow> ShapeSegment" where
  "ShapeSegment_init K k origin =
     updateAttachmentSiteLocation K
       \<lparr>kind = k,
        bounds = setMinMax (vx origin) (vy origin) (vx origin) (vy origin),
        capacity = DEFAULT_CAPACITY K,
        squareLength = 0,
        attachmentSite = \<lparr>locationProperty = \<lparr>vx = 0, vy = 0\<rparr>,
                          attachedOrAttachingMolecule = None\<rparr>\<rparr>"

text \<open>\<open>new FlatSegment( origin )\<close>: bounds of zero width and zero height at the origin.\<close>

definition FlatSegment_new :: "Params \<Rightarrow> Vector2 \<Rightarrow> SegStore \<Rightarrow> ref \<times> SegStore" where
  "FlatSegment_new K origin st = alloc (ShapeSegment_init K Flat origin) st"

text \<open>
  Modelled from the spec: the operations of \<open>SquareSegment\<close>. A square segment holds the
  bulk of the strand and the successor created by an overflow contains exactly the
  overflow: \<open>add\<close> grows a square segment by the whole amount. \<open>remove\<close> shrinks it and
  takes it out of the list once its contained length is below the comparison factor, the
  way the flat segment does.
\<close>

definition SquareSegment_new :: "Params \<Rightarrow> Vector2 \<Rightarrow> SegStore \<Rightarrow> ref \<times> SegStore" where
  "SquareSegment_new K origin st = alloc (ShapeSegment_init K Square origin) st"

definition SquareSegment_add :: "Params \<Rightarrow> real \<Rightarrow> ref \<Rightarrow> SegStore \<Rightarrow> SegStore" where
  "SquareSegment_add K len this st =
     modify this (\<lambda>s. updateAttachmentSiteLocation K (s\<lparr>squareLength := fadd (squareLength s) len\<rparr>)) st"

definition dropIfEmpty :: "Params \<Rightarrow> ref \<Rightarrow> SegStore \<Rightarrow> SegStore" where
  "dropIfEmpty K this st =
     (if getContainedLength (heap st this) < FLOATING_POINT_COMP_FACTOR K
      then st\<lparr>shapeSegments := splice1 (indexOf (shapeSegments st) this) (shapeSegments st)\<rparr>
      else st)"

definition SquareSegment_remove :: "Params \<Rightarrow> real \<Rightarrow> ref \<Rightarrow> SegStore \<Rightarrow> SegStore" where
  "SquareSegment_remove K len this st =
     modify this (updateAttachmentSiteLocation K)
       (dropIfEmpty K this (modify this (\<lambda>s. s\<lparr>squareLength := fsub (squareLength s) len\<rparr>) st))"

definition insertAfterShapeSegment :: "ref \<Rightarrow> ref \<Rightarrow> SegStore \<Rightarrow> error + SegStore" where
  "insertAfterShapeSegment existing new st =
     (case insertAfter existing new (shapeSegments st) of
        None \<Rightarrow> Inl NotInList
      | Some l \<Rightarrow> Inr (st\<lparr>shapeSegments := l\<rparr>))"

definition insertBeforeShapeSegment :: "ref \<Rightarrow> ref \<Rightarrow> SegStore \<Rightarrow> error + SegStore" where
  "insertBeforeShapeSegment existing new st =
     (case insertBefore existing new (shapeSegments st) of
        None \<Rightarrow> Inl NotInList
      | Some l \<Rightarrow> Inr (st\<lparr>shapeSegments := l\<rparr>))"

definition getPreviousShapeSegment :: "SegStore \<Rightarrow> ref \<Rightarrow> ref option" where
  "getPreviousShapeSegment st a = getPreviousItem (shapeSegments st) a"

definition getNextShapeSegment :: "SegStore \<Rightarrow> ref \<Rightarrow> ref option" where
  "getNextShapeSegment st a = getNextItem (shapeSegments st) a"

subsection \<open>FlatSegment\<close>

text \<open>
  \<open>FlatSegment.add\<close>. The square segment for the excess is created at the lower right
  corner, filled, and only then inserted after this segment.
\<close>

definition FlatSegment_add :: "Params \<Rightarrow> real \<Rightarrow> ref \<Rightarrow> SegStore \<Rightarrow> error + SegStore" where
  "FlatSegment_add K len this st =
     (if assertionsEnabled K \<and> \<not> getContainedLength (heap st this) \<le> capacity (heap st this)
      then Inl AssertionError
      else
        bindE
          (if fadd (getContainedLength (heap st this)) len > capacity (heap st this) then
             (let (newSquareSegment, st1) = SquareSegment_new K (getLowerRightCornerPos (heap st this)) st;
                  growthAmount = fsub (capacity (heap st1 this)) (getContainedLength (heap st1 this));
                  st2 = SquareSegment_add K (fsub len growthAmount) newSquareSegment st1
              in bindE (insertAfterShapeSegment this newSquareSegment st2)
                   (\<lambda>st3. Inr (growthAmount, st3)))
           else Inr (len, st))
          (\<lambda>(growthAmount, st4).
             Inr (modify this
                   (\<lambda>s. updateAttachmentSiteLocation K
                          (s\<lparr>bounds := setMinMax (fsub (getX (bounds s)) growthAmount) (getY (bounds s))
                                                 (fadd (getX (bounds s)) (getWidth (bounds s))) (getY (bounds s))\<rparr>))
                   st4)))"

text \<open>\<open>FlatSegment.remove\<close>.\<close>

definition FlatSegment_remove :: "Params \<Rightarrow> real \<Rightarrow> ref \<Rightarrow> SegStore \<Rightarrow> SegStore" where
  "FlatSegment_remove K len this st =
     modify this (updateAttachmentSiteLocation K)
       (dropIfEmpty K this
         (modify this
            (\<lambda>s. s\<lparr>bounds := setMinMax (getX (bounds s)) (getY (bounds s))
                                      (fsub (fadd (getX (bounds s)) (getWidth (bounds s))) len) (getY (bounds s))\<rparr>)
            st))"

text \<open>\<open>FlatSegment.maxOutLength\<close>.\<close>

definition maxOutLength :: "Params \<Rightarrow> ref \<Rightarrow> SegStore \<Rightarrow> SegStore" where
  "maxOutLength K this st =
     modify this
       (\<lambda>s. let growthAmount = getRemainingCapacity s
            in updateAttachmentSiteLocation K
                 (s\<lparr>bounds := setMinMax (fsub (getX (bounds s)) growthAmount) (minY (bounds s))
                                        (fadd (fsub (getX (bounds s)) growthAmount) (capacity s)) (minY (bounds s))\<rparr>))
       st"

text \<open>The calls \<open>segment.add( ... )\<close> and \<open>segment.remove( ... )\<close> dispatch on the variant.\<close>

definition ShapeSegment_add :: "Params \<Rightarrow> real \<Rightarrow> ref \<Rightarrow> SegStore \<Rightarrow> error + SegStore" where
  "ShapeSegment_add K len a st =
     (case kind (heap st a) of
        Flat \<Rightarrow> FlatSegment_add K len a st
      | Square \<Rightarrow> Inr (SquareSegment_add K len a st))"

definition ShapeSegment_remove :: "Params \<Rightarrow> real \<Rightarrow> ref \<Rightarrow> SegStore \<Rightarrow> SegStore" where
  "ShapeSegment_remove K len a st =
     (case kind (heap st a) of
        Flat \<Rightarrow> FlatSegment_remove K len a st
      | Square \<Rightarrow> SquareSegment_remove K len a st)"

text \<open>
  \<open>FlatSegment.advance\<close>, branch by branch. A call on \<open>outputSegment\<close> when it is \<open>null\<close>
  raises a \<open>TypeError\<close>.
\<close>

definition addToOutput :: "Params \<Rightarrow> real \<Rightarrow> ref option \<Rightarrow> SegStore \<Rightarrow> error + SegStore" where
  "addToOutput K len outputSegment st =
     (case outputSegment of
        None \<Rightarrow> Inl TypeError
      | Some out \<Rightarrow> ShapeSegment_add K len out st)"

text \<open>No input segment: the end of the strand is inside this segment.\<close>

definition advanceNoInput :: "Params \<Rightarrow> real \<Rightarrow> ref \<Rightarrow> ref option \<Rightarrow> SegStore \<Rightarrow> error + SegStore" where
  "advanceNoInput K len this outputSegment st =
     (let lengthToAdvance = min len (getContainedLength (heap st this))
      in addToOutput K lengthToAdvance outputSegment (FlatSegment_remove K lengthToAdvance this st))"

text \<open>The input segment holds more than the requested length.\<close>

definition advancePull :: "Params \<Rightarrow> real \<Rightarrow> ref \<Rightarrow> ref option \<Rightarrow> ref \<Rightarrow> SegStore \<Rightarrow> error + SegStore" where
  "advancePull K len this outputSegment inputSegment st =
     bindE
       (if fadd (getContainedLength (heap st this)) len \<le> capacity (heap st this) then
          FlatSegment_add K len this st
        else
          (let remainingCapacity = getRemainingCapacity (heap st this)
           in bindE
                (if remainingCapacity > FLOATING_POINT_COMP_FACTOR K then
                   (let st1 = maxOutLength K this st
                    in if assertionsEnabled K \<and> outputSegment \<noteq> None then Inl AssertionError
                       else
                         (let (newLeaderSegment, st2) =
                                FlatSegment_new K (getUpperLeftCornerPos (heap st1 this)) st1;
                              st3 = modify newLeaderSegment (setCapacity (LEADER_LENGTH K)) st2
                          in bindE (insertBeforeShapeSegment this newLeaderSegment st3)
                               (\<lambda>st4. Inr (Some newLeaderSegment, st4))))
                 else Inr (outputSegment, st))
                (\<lambda>(out, st5). addToOutput K (fsub len remainingCapacity) out st5)))
       (\<lambda>st6. Inr (ShapeSegment_remove K len inputSegment st6))"

text \<open>The input segment holds no more than the requested length.\<close>

definition advanceDrain :: "Params \<Rightarrow> real \<Rightarrow> ref \<Rightarrow> ref option \<Rightarrow> ref \<Rightarrow> SegStore \<Rightarrow> error + SegStore" where
  "advanceDrain K len this outputSegment inputSegment st =
     (let st1 = FlatSegment_remove K (fsub len (getContainedLength (heap st inputSegment))) this st;
          st2 = ShapeSegment_remove K (getContainedLength (heap st1 inputSegment)) inputSegment st1
      in addToOutput K len outputSegment st2)"

definition FlatSegment_advance :: "Params \<Rightarrow> real \<Rightarrow> ref \<Rightarrow> SegStore \<Rightarrow> error + SegStore" where
  "FlatSegment_advance K len this st =
     (let outputSegment = getPreviousShapeSegment st this;
          inputSegment = getNextShapeSegment st this
      in bindE
           (case inputSegment of
              None \<Rightarrow> advanceNoInput K len this outputSegment st
            | Some inp \<Rightarrow>
                if getContainedLength (heap st inp) > len
                then advancePull K len this outputSegment inp st
                else advanceDrain K len this outputSegment inp st)
           (\<lambda>st'. Inr (modify this (updateAttachmentSiteLocation K) st')))"

text \<open>\<open>FlatSegment.advanceAndRemove\<close>: nothing goes to an output segment.\<close>

definition FlatSegment_advanceAndRemove :: "Params \<Rightarrow> real \<Rightarrow> ref \<Rightarrow> SegStore \<Rightarrow> SegStore" where
  "FlatSegment_advanceAndRemove K len this st =
     modify this (updateAttachmentSiteLocation K)
       (case getNextShapeSegment st this of
          None \<Rightarrow>
            (let lengthToRemove = min len (getContainedLength (heap st this))
             in FlatSegment_remove K lengthToRemove this st)
        | Some inp \<Rightarrow>
            if getContainedLength (heap st inp) > len
            then ShapeSegment_remove K len inp st
            else
              (let st1 = FlatSegment_remove K (fsub len (getContainedLength (heap st inp))) this st
               in ShapeSegment_remove K (getContainedLength (heap st1 inp)) inp st1))"

text \<open>
  The calls \<open>segment.advance( length, this.shapeSegments )\<close> and
  \<open>segment.advanceAndRemove( reductionAmount, this.shapeSegments )\<close> that \<open>MessengerRna\<close>
  makes. They pass two arguments where the methods of \<open>FlatSegment\<close> take three,
  \<open>( length, windingBiomolecule, shapeSegmentList )\<close>, so the segment array is bound to
  \<open>windingBiomolecule\<close>. The first statement of either method asks \<open>windingBiomolecule\<close>
  for a neighbour of the segment (\<open>getPreviousShapeSegment\<close>, \<open>getNextShapeSegment\<close>); an
  array has no such method, and the call raises a \<open>TypeError\<close> before it has changed
  anything.

  Modelled from the spec: the methods of \<open>SquareSegment\<close> are not among the sources, and
  the spec describes the conveyor for the flat segment in a channel; on a square segment
  the model answers \<open>NotFlat\<close>.
\<close>

definition advanceWithSegmentArray :: "real \<Rightarrow> ref \<Rightarrow> SegStore \<Rightarrow> error + SegStore" where
  "advanceWithSegmentArray len a st =
     (case kind (heap st a) of
        Flat \<Rightarrow> Inl TypeError
      | Square \<Rightarrow> Inl NotFlat)"

definition advanceAndRemoveWithSegmentArray :: "real \<Rightarrow> ref \<Rightarrow> SegStore \<Rightarrow> error + SegStore" where
  "advanceAndRemoveWithSegmentArray len a st =
     (case kind (heap st a) of
        Flat \<Rightarrow> Inl TypeError
      | Square \<Rightarrow> Inl NotFlat)"

text \<open>
  Modelled from the spec: \<open>realignSegmentsFrom\<close> of \<open>WindingBiomolecule\<close>, whose file is
  not among the sources. It lines the segments of the list up again after their shapes
  have changed: each is moved, none is resized. The offsets are a parameter.
\<close>

definition realignSegmentsFrom :: "Params \<Rightarrow> ref \<Rightarrow> SegStore \<Rightarrow> SegStore" where
  "realignSegmentsFrom K a st =
     st\<lparr>heap := (\<lambda>b. if b \<in> set (shapeSegments st)
                      then updateAttachmentSiteLocation K
                             (translateSegment (realignShift K a (shapeSegments st) (heap st) b) (heap st b))
                      else heap st b)\<rparr>"

section \<open>The point chain\<close>

text \<open>
  A point mass. The chain of a strand is the list of its points from the first to the
  last one; the links \<open>previousPointMass\<close> and \<open>nextPointMass\<close> are the order of the list.
  Position, velocity and acceleration are left out: no operation modelled here reads them.
\<close>

record PointMass =
  targetDistanceToPreviousPoint :: real

definition setTargetDistanceToPreviousPoint :: "real \<Rightarrow> PointMass \<Rightarrow> PointMass" where
  "setTargetDistanceToPreviousPoint d p = p\<lparr>targetDistanceToPreviousPoint := d\<rparr>"

section \<open>MessengerRna\<close>

record Ribosome =
  ribosomeId :: nat
  entranceOfRnaChannelPos :: Vector2
  translationChannelLength :: real

record MessengerRnaDestroyer =
  destroyerId :: nat
  destroyerPosition :: Vector2
  destructionChannelLength :: real

text \<open>
  The calls the strand makes on its attachment state machine, and the generic states of
  such a machine.

  Modelled from the spec: \<open>MessengerRnaAttachmentStateMachine\<close>, whose file is not among
  the sources. A forced override puts the machine into unattached-and-available at once;
  what the other notifications do to the state is a parameter.
\<close>

datatype asm_call =
  AttachedToRibosome | AttachToDestroyer | AllRibosomesDetached | Detach
  | ForceImmediateUnattachedAndAvailable

datatype attachment_state =
  UnattachedAndAvailable | MovingTowardsAttachment | Attached | Detaching

definition asm_transition ::
  "(asm_call \<Rightarrow> attachment_state \<Rightarrow> attachment_state) \<Rightarrow> asm_call \<Rightarrow> attachment_state \<Rightarrow> attachment_state" where
  "asm_transition other c s =
     (case c of
        ForceImmediateUnattachedAndAvailable \<Rightarrow> UnattachedAndAvailable
      | _ \<Rightarrow> other c s)"

text \<open>
  The strand. The first point of the chain always exists; \<open>laterPoints\<close> are the points
  after it, so the first and the last point are the same object exactly when
  \<open>laterPoints\<close> is empty. \<open>asmCalls\<close> is the trace of the calls made on the state machine,
  \<open>console\<close> the lines written with \<open>console.log\<close>.
\<close>

record MessengerRna =
  segs :: SegStore
  firstShapeDefiningPoint :: PointMass
  laterPoints :: "PointMass list"
  mapRibosomeToShapeSegment :: "nat \<Rightarrow> ref option"
  messengerRnaDestroyer :: "nat option"
  segmentWhereDestroyerConnects :: "ref option"
  attachmentState :: attachment_state
  asmOther :: "asm_call \<Rightarrow> attachment_state \<Rightarrow> attachment_state"
  asmCalls :: "asm_call list"
  console :: "string list"

definition RIBOSOME_CONNECTION_DISTANCE :: real where
  "RIBOSOME_CONNECTION_DISTANCE = 400"

definition MRNA_DESTROYER_CONNECT_DISTANCE :: real where
  "MRNA_DESTROYER_CONNECT_DISTANCE = 400"

definition notify :: "asm_call \<Rightarrow> MessengerRna \<Rightarrow> MessengerRna" where
  "notify c m =
     m\<lparr>attachmentState := asm_transition (asmOther m) c (attachmentState m),
       asmCalls := asmCalls m @ [c]\<rparr>"

definition consoleLog :: "string \<Rightarrow> MessengerRna \<Rightarrow> MessengerRna" where
  "consoleLog line m = m\<lparr>console := console m @ [line]\<rparr>"

text \<open>
  Modelled from the spec: \<open>getLength\<close> of \<open>WindingBiomolecule\<close>, the total strand length,
  which is the sum of \<open>targetDistanceToPreviousPoint\<close> over the chain.
\<close>

definition chainLength :: "PointMass list \<Rightarrow> real" where
  "chainLength ps = sum_list (map targetDistanceToPreviousPoint ps)"

definition getLength :: "MessengerRna \<Rightarrow> real" where
  "getLength m = chainLength (firstShapeDefiningPoint m # laterPoints m)"

text \<open>The sum of the contained lengths over the segment list.\<close>

definition containedLengthSum :: "SegStore \<Rightarrow> real" where
  "containedLengthSum st = sum_list (map (\<lambda>a. getContainedLength (heap st a)) (shapeSegments st))"

text \<open>
  Modelled from the spec: \<open>windPointsThroughSegments\<close>, whose file is not among the
  sources. The winding pass gives every point a position and keeps the rest lengths;
  positions are not part of this model, so the pass leaves the modelled strand as it is.
\<close>

definition windPointsThroughSegments :: "MessengerRna \<Rightarrow> MessengerRna" where
  "windPointsThroughSegments m = m"

text \<open>
  \<open>advanceTranslation\<close>. A ribosome that is not in the map yields no segment, and the
  call on it raises a \<open>TypeError\<close>.
\<close>

definition advanceTranslation ::
  "Params \<Rightarrow> Ribosome \<Rightarrow> real \<Rightarrow> MessengerRna \<Rightarrow> error + (bool \<times> MessengerRna)" where
  "advanceTranslation K ribosome len m =
     (case mapRibosomeToShapeSegment m (ribosomeId ribosome) of
        None \<Rightarrow> Inl TypeError
      | Some segmentToAdvance \<Rightarrow>
          bindE (advanceWithSegmentArray len segmentToAdvance (segs m))
            (\<lambda>st1.
               let st2 = (if segmentToAdvance \<in> set (shapeSegments st1)
                          then realignSegmentsFrom K segmentToAdvance st1 else st1);
                   m1 = windPointsThroughSegments (m\<lparr>segs := st2\<rparr>)
               in Inr (getContainedLength (heap (segs m1) segmentToAdvance) \<le> 0, m1)))"

text \<open>
  The loop of \<open>reduceLength\<close> over the end of the chain. Stepping back from the first
  point gives \<open>null\<close>, and the call \<open>setNextPointMass\<close> on it raises a \<open>TypeError\<close>.
\<close>

function removeFromChain ::
  "real \<Rightarrow> real \<Rightarrow> PointMass \<Rightarrow> PointMass list \<Rightarrow> error + (PointMass \<times> PointMass list)" where
  "removeFromChain reductionAmount amountRemoved first later =
     (if amountRemoved < reductionAmount then
        (if later = [] then
           (if targetDistanceToPreviousPoint first \<le> reductionAmount - amountRemoved
            then Inl TypeError
            else Inr (setTargetDistanceToPreviousPoint
                        (targetDistanceToPreviousPoint first - (reductionAmount - amountRemoved)) first,
                      []))
         else
           (if targetDistanceToPreviousPoint (last later) \<le> reductionAmount - amountRemoved
            then removeFromChain reductionAmount
                   (amountRemoved + targetDistanceToPreviousPoint (last later)) first (butlast later)
            else Inr (first,
                      butlast later @
                        [setTargetDistanceToPreviousPoint
                           (targetDistanceToPreviousPoint (last later) - (reductionAmount - amountRemoved))
                           (last later)])))
      else Inr (first, later))"
  by pat_completeness auto
termination
  by (relation "measure (\<lambda>(r, a, f, later). length later)") auto

text \<open>\<open>reduceLength\<close>: the shape segments first, then the shape-defining points.\<close>

definition reduceLength :: "Params \<Rightarrow> real \<Rightarrow> MessengerRna \<Rightarrow> error + MessengerRna" where
  "reduceLength K reductionAmount m =
     (if reductionAmount \<ge> getLength m then
        Inr (m\<lparr>laterPoints := [], segs := (segs m)\<lparr>shapeSegments := []\<rparr>\<rparr>)
      else
        (case segmentWhereDestroyerConnects m of
           None \<Rightarrow> Inl TypeError
         | Some seg \<Rightarrow>
             bindE (advanceAndRemoveWithSegmentArray reductionAmount seg (segs m))
               (\<lambda>st1.
                  bindE (removeFromChain reductionAmount 0 (firstShapeDefiningPoint m) (laterPoints m))
                    (\<lambda>(first, later).
                       Inr (m\<lparr>segs := st1, firstShapeDefiningPoint := first, laterPoints := later\<rparr>)))))"

text \<open>\<open>advanceDestruction\<close>.\<close>

definition advanceDestruction :: "Params \<Rightarrow> real \<Rightarrow> MessengerRna \<Rightarrow> error + (bool \<times> MessengerRna)" where
  "advanceDestruction K len m =
     (case segmentWhereDestroyerConnects m of
        None \<Rightarrow>
          Inr (True,
               consoleLog '' - Warning: Attempt to advance the destruction of mRNA that has no content left.'' m)
      | Some seg \<Rightarrow>
          bindE (reduceLength K len m)
            (\<lambda>m1.
               let m2 = (if seg \<in> set (shapeSegments (segs m1))
                         then m1\<lparr>segs := realignSegmentsFrom K seg (segs m1)\<rparr> else m1);
                   m3 = (if length (shapeSegments (segs m2)) > 0
                         then windPointsThroughSegments m2 else m2)
               in Inr (laterPoints m3 = [], m3)))"

text \<open>\<open>getRibosomeAttachmentLocation\<close>: \<open>None\<close> is the \<open>null\<close> of the source.\<close>

definition getRibosomeAttachmentLocation ::
  "Params \<Rightarrow> Ribosome \<Rightarrow> MessengerRna \<Rightarrow> Vector2 option \<times> MessengerRna" where
  "getRibosomeAttachmentLocation K ribosome m =
     (case mapRibosomeToShapeSegment m (ribosomeId ribosome) of
        None \<Rightarrow>
          (None,
           consoleLog '' Warning: Ignoring attempt to obtain attachment point for non-attached ribosome.'' m)
      | Some segment \<Rightarrow>
          (if getPreviousItem (shapeSegments (segs m)) segment = None then
             (Some \<lparr>vx = vx (getLowerRightCornerPos (heap (segs m) segment)) - LEADER_LENGTH K,
                    vy = vy (getLowerRightCornerPos (heap (segs m) segment))\<rparr>, m)
           else
             (Some \<lparr>vx = vx (getUpperLeftCornerPos (heap (segs m) segment)) + translationChannelLength ribosome,
                    vy = vy (getUpperLeftCornerPos (heap (segs m) segment))\<rparr>, m)))"


text \<open>
  The loop of \<open>getProportionOfRnaTranslated\<close> over the segments that precede the
  ribosome's segment; it stops at that segment.
\<close>

fun lengthPreceding :: "(ref \<Rightarrow> ShapeSegment) \<Rightarrow> ref \<Rightarrow> ref list \<Rightarrow> real \<Rightarrow> real" where
  "lengthPreceding h segmentInRibosomeChannel [] translatedLength = translatedLength"
| "lengthPreceding h segmentInRibosomeChannel (shapeSegment # rest) translatedLength =
     (if shapeSegment = segmentInRibosomeChannel then translatedLength
      else lengthPreceding h segmentInRibosomeChannel rest
             (translatedLength + getContainedLength (h shapeSegment)))"

text \<open>The part of the ribosome's own segment that is past the channel entrance.\<close>

definition lengthPastEntrance :: "ShapeSegment \<Rightarrow> real" where
  "lengthPastEntrance s =
     getContainedLength s -
       (vx (getLowerRightCornerPos s) - vx (locationProperty (attachmentSite s)))"

definition getProportionOfRnaTranslated :: "Ribosome \<Rightarrow> MessengerRna \<Rightarrow> error + js_number" where
  "getProportionOfRnaTranslated ribosome m =
     (case mapRibosomeToShapeSegment m (ribosomeId ribosome) of
        None \<Rightarrow> Inl TypeError
      | Some segmentInRibosomeChannel \<Rightarrow>
          (let translatedLength =
                 lengthPreceding (heap (segs m)) segmentInRibosomeChannel (shapeSegments (segs m)) 0
                 + lengthPastEntrance (heap (segs m) segmentInRibosomeChannel)
           in Inr (js_max_zero (js_divide translatedLength (getLength m)))))"

text \<open>
  The proposals. The attachment site that is handed back is named by the segment that
  owns it; \<open>None\<close> is the \<open>null\<close> of the source. Reading the first segment of an empty list
  raises a \<open>TypeError\<close>.
\<close>

definition considerProposalFromByRibosome ::
  "Ribosome \<Rightarrow> MessengerRna \<Rightarrow> error + (ref option \<times> MessengerRna)" where
  "considerProposalFromByRibosome ribosome m =
     (if messengerRnaDestroyer m = None then
        (case shapeSegments (segs m) of
           [] \<Rightarrow> Inl TypeError
         | seg0 # rest \<Rightarrow>
             (let leadingEdgeAttachmentSite = attachmentSite (heap (segs m) seg0)
              in if attachedOrAttachingMolecule leadingEdgeAttachmentSite = None \<and>
                    distance (locationProperty leadingEdgeAttachmentSite) (entranceOfRnaChannelPos ribosome)
                      < RIBOSOME_CONNECTION_DISTANCE
                 then Inr (Some seg0,
                           (notify AttachedToRibosome m)
                             \<lparr>mapRibosomeToShapeSegment :=
                                (mapRibosomeToShapeSegment m)(ribosomeId ribosome \<mapsto> seg0)\<rparr>)
                 else Inr (None, m)))
      else Inr (None, m))"

definition considerProposalFromByMessengerRnaDestroyer ::
  "MessengerRnaDestroyer \<Rightarrow> MessengerRna \<Rightarrow> error + (ref option \<times> MessengerRna)" where
  "considerProposalFromByMessengerRnaDestroyer destroyer m =
     (if messengerRnaDestroyer m = None then
        (case shapeSegments (segs m) of
           [] \<Rightarrow> Inl TypeError
         | seg0 # rest \<Rightarrow>
             (let leadingEdgeAttachmentSite = attachmentSite (heap (segs m) seg0)
              in if attachedOrAttachingMolecule leadingEdgeAttachmentSite = None \<and>
                    distance (locationProperty leadingEdgeAttachmentSite) (destroyerPosition destroyer)
                      < MRNA_DESTROYER_CONNECT_DISTANCE
                 then Inr (Some seg0,
                           (notify AttachToDestroyer m)
                             \<lparr>messengerRnaDestroyer := Some (destroyerId destroyer)\<rparr>)
                 else Inr (None, m)))
      else Inr (None, m))"












text \<open>
  The translated length as the spec words it: the contained lengths of the segments that
  precede the ribosome's segment, plus the part of its own segment past the channel
  entrance, which is its contained length less the distance from its lower right corner
  to the attachment site.
\<close>

definition translatedLengthOf :: "MessengerRna \<Rightarrow> ref \<Rightarrow> real" where
  "translatedLengthOf m seg =
     sum_list (map (\<lambda>a. getContainedLength (heap (segs m) a))
                   (takeWhile (\<lambda>a. a \<noteq> seg) (shapeSegments (segs m))))
     + (getContainedLength (heap (segs m) seg)
        - (maxX (bounds (heap (segs m) seg)) - vx (locationProperty (attachmentSite (heap (segs m) seg)))))"

section \<open>Flat segments have no height\<close>

text \<open>
  A flat segment object has bounds of height zero; the store keeps flat segments flat
  when this holds of every object it has created.
\<close>

definition flatHasNoHeight :: "ShapeSegment \<Rightarrow> bool" where
  "flatHasNoHeight s = (kind s = Flat \<longrightarrow> getHeight (bounds s) = 0)"

definition flatSegmentsHaveNoHeight :: "SegStore \<Rightarrow> bool" where
  "flatSegmentsHaveNoHeight st = (\<forall>a < nextRef st. flatHasNoHeight (heap st a))"

section \<open>What a store holds\<close>

text \<open>The contained lengths along the segment list.\<close>

definition containedLengths :: "SegStore \<Rightarrow> real list" where
  "containedLengths st = map (\<lambda>a. getContainedLength (heap st a)) (shapeSegments st)"

section \<open>Example strands\<close>

definition exampleParams :: Params where
  "exampleParams =
     \<lparr>LEADER_LENGTH = 100, FLOATING_POINT_COMP_FACTOR = 1 / 1000, DEFAULT_CAPACITY = 1000000,
      assertionsEnabled = True, siteLocation = getUpperLeftCornerPos,
      realignShift = (\<lambda>a l h b. \<lparr>vx = 0, vy = 0\<rparr>)\<rparr>"

definition flatSegment :: "real \<Rightarrow> real \<Rightarrow> real \<Rightarrow> ShapeSegment" where
  "flatSegment x0 x1 cap =
     \<lparr>kind = Flat, bounds = setMinMax x0 0 x1 0, capacity = cap, squareLength = 0,
      attachmentSite = \<lparr>locationProperty = \<lparr>vx = x0, vy = 0\<rparr>, attachedOrAttachingMolecule = None\<rparr>\<rparr>"

definition squareSegment :: "real \<Rightarrow> real \<Rightarrow> ShapeSegment" where
  "squareSegment x0 len =
     \<lparr>kind = Square, bounds = setMinMax x0 0 x0 0, capacity = 1000000, squareLength = len,
      attachmentSite = \<lparr>locationProperty = \<lparr>vx = x0, vy = 0\<rparr>, attachedOrAttachingMolecule = None\<rparr>\<rparr>"

text \<open>The store that holds the given segments at the references \<open>0, 1, ...\<close>, in list order.\<close>

definition storeOf :: "ShapeSegment list \<Rightarrow> SegStore" where
  "storeOf xs =
     \<lparr>heap = (\<lambda>a. if a < length xs then xs ! a else flatSegment 0 0 0),
      nextRef = length xs, shapeSegments = [0..<length xs]\<rparr>"

text \<open>A strand over the given segments whose later points have the given rest lengths.\<close>

definition strandOf :: "ShapeSegment list \<Rightarrow> real list \<Rightarrow> MessengerRna" where
  "strandOf xs ds =
     \<lparr>segs = storeOf xs,
      firstShapeDefiningPoint = \<lparr>targetDistanceToPreviousPoint = 0\<rparr>,
      laterPoints = map (\<lambda>d. \<lparr>targetDistanceToPreviousPoint = d\<rparr>) ds,
      mapRibosomeToShapeSegment = Map.empty,
      messengerRnaDestroyer = None,
      segmentWhereDestroyerConnects = None,
      attachmentState = Attached,
      asmOther = (\<lambda>c s. s),
      asmCalls = [],
      console = []\<rparr>"

definition exampleRibosome :: "Vector2 \<Rightarrow> Ribosome" where
  "exampleRibosome p = \<lparr>ribosomeId = 7, entranceOfRnaChannelPos = p, translationChannelLength = 200\<rparr>"

definition exampleDestroyer :: "Vector2 \<Rightarrow> MessengerRnaDestroyer" where
  "exampleDestroyer p = \<lparr>destroyerId = 9, destroyerPosition = p, destructionChannelLength = 150\<rparr>"



text \<open>
  A strand of length 100 in one flat segment, translated by ribosome 7, whose attachment
  site lies to the right of the segment.
\<close>

definition overshootStrand :: MessengerRna where
  "overshootStrand =
     (strandOf [(flatSegment (- 100) 0 300)
        \<lparr>attachmentSite := \<lparr>locationProperty = \<lparr>vx = 50, vy = 0\<rparr>,
                             attachedOrAttachingMolecule = Some 7\<rparr>\<rparr>] [50, 50])
       \<lparr>mapRibosomeToShapeSegment := [7 \<mapsto> 0]\<rparr>"

text \<open>A strand of length zero: one point, one empty flat segment, ribosome 7 attached.\<close>

definition emptyStrand :: MessengerRna where
  "emptyStrand = (strandOf [flatSegment 0 0 100] [])\<lparr>mapRibosomeToShapeSegment := [7 \<mapsto> 0]\<rparr>"

text \<open>A flat segment that contains 150 of its capacity 200, followed by a square segment of 300.\<close>

definition twoSegments :: SegStore where
  "twoSegments = storeOf [flatSegment 0 150 200, squareSegment 150 300]"

text \<open>
  A square segment of 100, a flat segment filled to its capacity 200, a square segment of
  500; and a flat segment on its own.
\<close>

definition threeSegments :: SegStore where
  "threeSegments = storeOf [squareSegment 0 100, flatSegment 100 300 200, squareSegment 300 500]"

definition oneSegment :: SegStore where
  "oneSegment = storeOf [flatSegment 0 50 200]"

text \<open>The doubles nearest to 100.3 and to 200.1.\<close>

definition nearest_100_3 :: real where
  "nearest_100_3 = 7057985041019699 / 2 ^ 46"

definition nearest_200_1 :: real where
  "nearest_200_1 = 7040392854975283 / 2 ^ 45"

section \<open>Properties\<close>

subsection \<open>Rounding\<close>

lemma pow2_powr: "pow2 k = 2 powr (real_of_int k)"
  by (auto simp: pow2_def powr_realpow [symmetric] powr_minus divide_simps)

lemma pow2_pos [simp]: "0 < pow2 k"
  by (simp add: pow2_powr)

lemma pow2_nz [simp]: "pow2 k \<noteq> 0"
  by (simp add: pow2_powr)

lemma pow2_nonneg [simp]: "0 \<le> pow2 k"
  by (simp add: pow2_powr)

lemma abs_pow2 [simp]: "\<bar>pow2 k\<bar> = pow2 k"
  by (simp add: pow2_powr)

lemma pow2_add: "pow2 (a + b) = pow2 a * pow2 b"
  by (simp add: pow2_powr powr_add)

lemma pow2_diff: "pow2 (a - b) = pow2 a / pow2 b"
  by (simp add: pow2_powr powr_diff)

lemma pow2_mono: "a \<le> b \<Longrightarrow> pow2 a \<le> pow2 b"
  by (simp add: pow2_powr)

lemma pow2_nat: "0 \<le> k \<Longrightarrow> pow2 k = of_int (2 ^ nat k)"
  by (simp add: pow2_def)

lemma exponentOf_bounds:
  assumes "x \<noteq> 0"
  shows "pow2 (exponentOf x) \<le> \<bar>x\<bar>" and "\<bar>x\<bar> < pow2 (exponentOf x + 1)"
proof -
  have "pow2 (exponentOf x) \<le> \<bar>x\<bar> \<and> \<bar>x\<bar> < pow2 (exponentOf x + 1)"
  proof (cases "1 \<le> \<bar>x\<bar>")
    case True
    define n where "n = \<lfloor>\<bar>x\<bar>\<rfloor>"
    from True have n: "0 < n" by (simp add: n_def)
    from bitlen_bounds [OF n] have b: "2 ^ nat (bitlen n - 1) \<le> n" "n < 2 ^ nat (bitlen n)" by simp_all
    from n have bl: "1 \<le> bitlen n" by (simp add: bitlen_alt_def)
    have e: "exponentOf x = bitlen n - 1" using True by (simp add: exponentOf_def n_def)
    have "real_of_int (2 ^ nat (bitlen n - 1)) \<le> real_of_int n" using b(1) by linarith
    also have "\<dots> \<le> \<bar>x\<bar>" by (simp add: n_def)
    finally have lo: "pow2 (bitlen n - 1) \<le> \<bar>x\<bar>" using bl by (simp add: pow2_def)
    have "n + 1 \<le> 2 ^ nat (bitlen n)" using b(2) by simp
    then have "real_of_int (n + 1) \<le> real_of_int (2 ^ nat (bitlen n))" by linarith
    moreover have "\<bar>x\<bar> < real_of_int (n + 1)" unfolding n_def by linarith
    ultimately have hi: "\<bar>x\<bar> < pow2 (bitlen n)" using bl by (simp add: pow2_def)
    from lo hi e show ?thesis by simp
  next
    case False
    define y where "y = 1 / \<bar>x\<bar>"
    from False assms have y: "1 < y" by (simp add: y_def)
    define n where "n = \<lceil>y\<rceil> - 1"
    from y have n: "0 < n" unfolding n_def by linarith
    define k where "k = bitlen n"
    from bitlen_bounds [OF n] have b: "2 ^ nat (k - 1) \<le> n" "n < 2 ^ nat k" by (simp_all add: k_def)
    from n have bl: "1 \<le> k" by (simp add: bitlen_alt_def k_def)
    have e: "exponentOf x = - k" using False by (simp add: exponentOf_def n_def y_def k_def)
    have "real_of_int n < y" unfolding n_def by linarith
    moreover have "real_of_int (2 ^ nat (k - 1)) \<le> real_of_int n" using b(1) by linarith
    moreover have "(2::real) ^ nat (k - 1) = real_of_int (2 ^ nat (k - 1))" by simp
    ultimately have lo: "2 ^ nat (k - 1) < y" by linarith
    have "n + 1 \<le> 2 ^ nat k" using b(2) by simp
    then have "real_of_int (n + 1) \<le> real_of_int (2 ^ nat k)" by linarith
    moreover have "y \<le> real_of_int (n + 1)" unfolding n_def by simp
    ultimately have hi: "y \<le> 2 ^ nat k" by simp
    have xpos: "0 < \<bar>x\<bar>" using assms by simp
    have xy: "\<bar>x\<bar> = 1 / y" by (simp add: y_def)
    have "1 / 2 ^ nat k \<le> 1 / y" using hi y by (intro divide_left_mono) simp_all
    then have l: "pow2 (- k) \<le> \<bar>x\<bar>" using bl xy by (simp add: pow2_def)
    have "1 / y < 1 / 2 ^ nat (k - 1)" using lo y by (intro divide_strict_left_mono) simp_all
    moreover have "pow2 (- k + 1) = 1 / 2 ^ nat (k - 1)"
      using bl by (cases "k = 1") (simp_all add: pow2_def)
    ultimately have h: "\<bar>x\<bar> < pow2 (- k + 1)" using xy by simp
    from l h e show ?thesis by simp
  qed
  then show "pow2 (exponentOf x) \<le> \<bar>x\<bar>" and "\<bar>x\<bar> < pow2 (exponentOf x + 1)" by simp_all
qed

lemma pow2_strict_mono_rev: "pow2 a < pow2 b \<Longrightarrow> a < b"
  by (simp add: pow2_powr)

lemma exponentOf_eqI:
  assumes "pow2 e \<le> \<bar>x\<bar>" and "\<bar>x\<bar> < pow2 (e + 1)"
  shows "exponentOf x = e"
proof -
  have "0 < \<bar>x\<bar>" using pow2_pos [of e] assms(1) by (rule less_le_trans)
  then have nz: "x \<noteq> 0" by simp
  note b = exponentOf_bounds [OF nz]
  from assms(1) b(2) have "pow2 e < pow2 (exponentOf x + 1)" by simp
  then have "e < exponentOf x + 1" by (rule pow2_strict_mono_rev)
  moreover from b(1) assms(2) have "pow2 (exponentOf x) < pow2 (e + 1)" by simp
  then have "exponentOf x < e + 1" by (rule pow2_strict_mono_rev)
  ultimately show ?thesis by simp
qed

lemma roundTiesToEven_error: "\<bar>of_int (roundTiesToEven q) - q\<bar> \<le> 1 / 2"
  unfolding roundTiesToEven_def Let_def by (auto simp: abs_if) linarith+

lemma roundTiesToEven_int [simp]: "roundTiesToEven (of_int n) = n"
  by (simp add: roundTiesToEven_def)

lemma fl_zero [simp]: "fl 0 = 0"
  by (simp add: fl_def)

lemma ulp_pos [simp]: "0 < ulp x"
  by (simp add: ulp_def)

lemma ulp_nz [simp]: "ulp x \<noteq> 0"
  by (simp add: ulp_def)

lemma ulp_nonneg [simp]: "0 \<le> ulp x"
  by (simp add: ulp_def)

lemma abs_ulp [simp]: "\<bar>ulp x\<bar> = ulp x"
  by (simp add: ulp_def)

lemma fl_error_ulp: "\<bar>fl x - x\<bar> \<le> ulp x / 2"
proof (cases "x = 0")
  case True
  then show ?thesis using less_imp_le [OF ulp_pos [of 0]] by simp
next
  case False
  have "fl x - x = (of_int (roundTiesToEven (x / ulp x)) - x / ulp x) * ulp x"
    using False ulp_pos [of x] by (simp add: fl_def field_simps)
  then have "\<bar>fl x - x\<bar> = \<bar>of_int (roundTiesToEven (x / ulp x)) - x / ulp x\<bar> * ulp x"
    using ulp_pos [of x] by (simp add: abs_mult)
  also have "\<dots> \<le> (1 / 2) * ulp x"
    using roundTiesToEven_error [of "x / ulp x"] ulp_pos [of x]
    by (intro mult_right_mono) simp_all
  finally show ?thesis by simp
qed

lemma pow2_half: "pow2 k / 2 = pow2 (k - 1)"
  by (simp add: pow2_powr powr_diff)

lemma fl_error: "\<bar>fl x - x\<bar> \<le> unitRoundoff * \<bar>x\<bar> + tiny"
proof (cases "x = 0")
  case True
  then show ?thesis using less_imp_le [OF pow2_pos [of "- 1075"]] by (simp add: tiny_def)
next
  case False
  define e where "e = exponentOf x"
  from exponentOf_bounds(1) [OF False] have lo: "pow2 e \<le> \<bar>x\<bar>" by (simp add: e_def)
  have t: "0 \<le> tiny" "0 \<le> unitRoundoff * \<bar>x\<bar>"
    using less_imp_le [OF pow2_pos] by (simp_all add: tiny_def unitRoundoff_def)
  have "ulp x / 2 \<le> unitRoundoff * \<bar>x\<bar> + tiny"
  proof (cases "- 1022 \<le> e")
    case True
    then have "ulp x / 2 = pow2 (e - 53)"
      by (simp add: ulp_def e_def [symmetric] pow2_half max_def)
    also have "e - 53 = - 53 + e" by simp
    finally have "ulp x / 2 = pow2 (- 53 + e)" .
    also have "\<dots> = unitRoundoff * pow2 e" unfolding unitRoundoff_def by (rule pow2_add)
    also have "\<dots> \<le> unitRoundoff * \<bar>x\<bar>"
      using lo less_imp_le [OF pow2_pos [of "- 53"]]
      by (intro mult_left_mono) (simp_all add: unitRoundoff_def)
    finally show ?thesis using t by linarith
  next
    case False
    then have "ulp x / 2 = tiny"
      by (simp add: ulp_def e_def [symmetric] pow2_half max_def tiny_def)
    then show ?thesis using t by linarith
  qed
  with fl_error_ulp [of x] show ?thesis by linarith
qed

text \<open>Numbers that are doubles are not rounded.\<close>

lemma fl_exact:
  assumes "x = of_int n * pow2 j" and "\<bar>n\<bar> < 2 ^ 53" and "- 1074 \<le> j"
  shows "fl x = x"
proof (cases "x = 0")
  case True
  then show ?thesis by simp
next
  case False
  define e where "e = exponentOf x"
  define t where "t = max e (- 1022) - 52"
  from exponentOf_bounds(1) [OF False] have lo: "pow2 e \<le> \<bar>x\<bar>" by (simp add: e_def)
  have "\<bar>x\<bar> = of_int \<bar>n\<bar> * pow2 j" using assms(1) by (simp add: abs_mult)
  also have "\<dots> < of_int (2 ^ 53) * pow2 j"
    using assms(2) by (intro mult_strict_right_mono) (simp_all add: of_int_less_iff del: of_int_power)
  also have "real_of_int (2 ^ 53) = pow2 53" by (simp add: pow2_def)
  also have "pow2 53 * pow2 j = pow2 (53 + j)" by (rule pow2_add [symmetric])
  finally have "pow2 e < pow2 (53 + j)" using lo by simp
  then have "e < 53 + j" by (rule pow2_strict_mono_rev)
  with assms(3) have tj: "t \<le> j" by (simp add: t_def)
  have u: "ulp x = pow2 t" by (simp add: ulp_def t_def e_def)
  have "x / pow2 t = of_int n * pow2 (j - t)" by (simp add: assms(1) pow2_diff)
  also have "\<dots> = of_int (n * 2 ^ nat (j - t))" using tj by (simp add: pow2_def)
  finally have q: "x / ulp x = of_int (n * 2 ^ nat (j - t))" by (simp add: u)
  have "fl x = of_int (n * 2 ^ nat (j - t)) * ulp x"
    using False unfolding fl_def q roundTiesToEven_int by simp
  also have "\<dots> = (x / ulp x) * ulp x" unfolding q ..
  also have "\<dots> = x" using ulp_pos [of x] by simp
  finally show ?thesis .
qed

lemma fl_of_int: "\<bar>n\<bar> < 2 ^ 53 \<Longrightarrow> fl (of_int n) = of_int n"
  using fl_exact [of "of_int n" n 0] by (simp add: pow2_def)

lemma fl_numeral [simp]: "(numeral k :: int) < 2 ^ 53 \<Longrightarrow> fl (numeral k) = numeral k"
  using fl_of_int [of "numeral k"] by simp

lemma fl_neg_numeral [simp]: "(numeral k :: int) < 2 ^ 53 \<Longrightarrow> fl (- numeral k) = - numeral k"
  using fl_of_int [of "- numeral k"] by simp

lemma fl_one [simp]: "fl 1 = 1"
  using fl_of_int [of 1] by simp

lemma fsub_self [simp]: "fsub a a = 0"
  by (simp add: fsub_def)

text \<open>Evaluating a rounding at a given exponent.\<close>

lemma fl_eqI:
  assumes "pow2 e \<le> \<bar>x\<bar>" and "\<bar>x\<bar> < pow2 (e + 1)"
    and "t = max e (- 1022) - 52" and "roundTiesToEven (x / pow2 t) = n"
  shows "fl x = of_int n * pow2 t"
proof -
  have "0 < \<bar>x\<bar>" using pow2_pos [of e] assms(1) by (rule less_le_trans)
  then have nz: "x \<noteq> 0" by simp
  from exponentOf_eqI [OF assms(1,2)] assms(3) have "ulp x = pow2 t" by (simp add: ulp_def)
  with nz assms(4) show ?thesis by (simp add: fl_def)
qed

lemma unitRoundoff_bounds: "0 \<le> unitRoundoff" "unitRoundoff \<le> 1"
  by (simp_all add: unitRoundoff_def pow2_def)

lemma tiny_nonneg: "0 \<le> tiny"
  by (simp add: tiny_def)

text \<open>
  One rounding at a magnitude of at most \<open>a * M + b * E\<close>, where \<open>E\<close> is the rounding
  error at magnitude \<open>M\<close>.
\<close>

lemma fl_lin:
  assumes "\<bar>y\<bar> \<le> a * M + b * (unitRoundoff * M + tiny)" and "1 \<le> a" and "0 \<le> b" and "0 \<le> M"
  shows "\<bar>fl y - y\<bar> \<le> (a + b) * (unitRoundoff * M + tiny)"
proof -
  let ?u = unitRoundoff
  let ?E = "?u * M + tiny"
  note u = unitRoundoff_bounds and t = tiny_nonneg
  have E: "0 \<le> ?E" using u t assms(4) by simp
  have "\<bar>fl y - y\<bar> \<le> ?u * \<bar>y\<bar> + tiny" by (rule fl_error)
  also have "?u * \<bar>y\<bar> \<le> ?u * (a * M + b * ?E)"
    using assms(1) u(1) by (rule mult_left_mono)
  also have "?u * (a * M + b * ?E) = a * (?u * M) + b * (?u * ?E)" by (simp add: algebra_simps)
  also have "?u * ?E \<le> 1 * ?E" using u(2) E by (rule mult_right_mono)
  then have "b * (?u * ?E) \<le> b * ?E" using assms(3) by (simp add: mult_left_mono)
  also have "a * (?u * M) + b * ?E + tiny \<le> a * ?E + b * ?E"
  proof -
    have "1 * tiny \<le> a * tiny" using assms(2) t by (rule mult_right_mono)
    then show ?thesis by (simp add: algebra_simps)
  qed
  finally show ?thesis by (simp add: algebra_simps)
qed

lemma fl_lin':
  assumes "\<bar>y\<bar> \<le> a * M + b * E" and "E = unitRoundoff * M + tiny"
    and "1 \<le> a" and "0 \<le> b" and "0 \<le> M" and "c = a + b"
  shows "\<bar>fl y - y\<bar> \<le> c * E"
  using fl_lin [of y a M b] assms by simp


text \<open>The roundings of \<open>add\<close> when the length fits.\<close>

lemma add_fits_values:
  fixes x X L M :: real
  assumes "\<bar>x\<bar> \<le> M" "\<bar>X\<bar> \<le> M" "\<bar>L\<bar> \<le> M"
  defines "w \<equiv> fsub X x"
  shows "\<bar>fsub (fadd x w) (fsub x L) - (w + L)\<bar> \<le> 21 * (unitRoundoff * M + tiny)"
proof -
  define E where "E = unitRoundoff * M + tiny"
  have M: "0 \<le> M" using assms(1) by linarith
  have E: "0 \<le> E" using M unitRoundoff_bounds tiny_nonneg by (simp add: E_def)
  have e0: "\<bar>w - (X - x)\<bar> \<le> 2 * E"
    unfolding w_def fsub_def
    by (rule fl_lin' [where a = 2 and b = 0 and M = M]) (use assms M E_def in \<open>simp_all, linarith?\<close>)
  then have w: "\<bar>w\<bar> \<le> 2 * M + 2 * E" using assms by linarith
  have e2: "\<bar>fadd x w - (x + w)\<bar> \<le> 5 * E"
    unfolding fadd_def
    by (rule fl_lin' [where a = 3 and b = 2 and M = M]) (use assms M E_def w in \<open>simp_all, linarith?\<close>)
  have e3: "\<bar>fsub x L - (x - L)\<bar> \<le> 2 * E"
    unfolding fsub_def
    by (rule fl_lin' [where a = 2 and b = 0 and M = M]) (use assms M E_def in \<open>simp_all, linarith?\<close>)
  have e4: "\<bar>fsub (fadd x w) (fsub x L) - (fadd x w - fsub x L)\<bar> \<le> 14 * E"
    unfolding fsub_def [of "fadd x w"]
    by (rule fl_lin' [where a = 5 and b = 9 and M = M]) (use assms M E_def w e2 e3 in \<open>simp_all, linarith?\<close>)
  from e2 e3 e4 show ?thesis unfolding E_def [symmetric] by linarith
qed


text \<open>The roundings of \<open>add\<close> when the excess goes to a new square segment.\<close>

lemma add_overflow_values:
  fixes x X L C M :: real
  assumes "\<bar>x\<bar> \<le> M" "\<bar>X\<bar> \<le> M" "\<bar>L\<bar> \<le> M" "\<bar>C\<bar> \<le> M"
  defines "w \<equiv> fsub X x"
  defines "g \<equiv> fsub C w"
  shows "\<bar>fsub (fadd x w) (fsub x g) - C\<bar> \<le> 53 * (unitRoundoff * M + tiny)"
    and "\<bar>fadd 0 (fsub L g) - (L - g)\<bar> \<le> 33 * (unitRoundoff * M + tiny)"
proof -
  define E where "E = unitRoundoff * M + tiny"
  have M: "0 \<le> M" using assms(1) by linarith
  have E: "0 \<le> E" using M unitRoundoff_bounds tiny_nonneg by (simp add: E_def)
  have e0: "\<bar>w - (X - x)\<bar> \<le> 2 * E"
    unfolding w_def fsub_def
    by (rule fl_lin' [where a = 2 and b = 0 and M = M]) (use assms M E_def in \<open>simp_all, linarith?\<close>)
  then have w: "\<bar>w\<bar> \<le> 2 * M + 2 * E" using assms by linarith
  have e1: "\<bar>g - (C - w)\<bar> \<le> 5 * E"
    unfolding g_def fsub_def
    by (rule fl_lin' [where a = 3 and b = 2 and M = M]) (use assms M E_def w in \<open>simp_all, linarith?\<close>)
  then have g: "\<bar>g\<bar> \<le> 3 * M + 7 * E" using assms w by linarith
  have e2: "\<bar>fadd x w - (x + w)\<bar> \<le> 5 * E"
    unfolding fadd_def
    by (rule fl_lin' [where a = 3 and b = 2 and M = M]) (use assms M E_def w in \<open>simp_all, linarith?\<close>)
  have e3: "\<bar>fsub x g - (x - g)\<bar> \<le> 11 * E"
    unfolding fsub_def
    by (rule fl_lin' [where a = 4 and b = 7 and M = M]) (use assms M E_def g in \<open>simp_all, linarith?\<close>)
  have e4: "\<bar>fsub (fadd x w) (fsub x g) - (fadd x w - fsub x g)\<bar> \<le> 32 * E"
    unfolding fsub_def [of "fadd x w"]
    by (rule fl_lin' [where a = 7 and b = 25 and M = M])
      (use assms M E_def w g e2 e3 in \<open>simp_all, linarith?\<close>)
  from e1 e2 e3 e4 show "\<bar>fsub (fadd x w) (fsub x g) - C\<bar> \<le> 53 * (unitRoundoff * M + tiny)"
    unfolding E_def [symmetric] by linarith
  have e5: "\<bar>fsub L g - (L - g)\<bar> \<le> 11 * E"
    unfolding fsub_def
    by (rule fl_lin' [where a = 4 and b = 7 and M = M]) (use assms M E_def g in \<open>simp_all, linarith?\<close>)
  have e6: "\<bar>fadd 0 (fsub L g) - fsub L g\<bar> \<le> 22 * E"
    unfolding fadd_def add_0
    by (rule fl_lin' [where a = 4 and b = 18 and M = M]) (use assms M E_def g e5 in \<open>simp_all, linarith?\<close>)
  from e5 e6 show "\<bar>fadd 0 (fsub L g) - (L - g)\<bar> \<le> 33 * (unitRoundoff * M + tiny)"
    unfolding E_def [symmetric] by linarith
qed

text \<open>The roundings of \<open>remove\<close>.\<close>

lemma remove_values:
  fixes x X L M :: real
  assumes "\<bar>x\<bar> \<le> M" "\<bar>X\<bar> \<le> M" "\<bar>L\<bar> \<le> M"
  defines "w \<equiv> fsub X x"
  shows "\<bar>fsub (fsub (fadd x w) L) x - (w - L)\<bar> \<le> 39 * (unitRoundoff * M + tiny)"
proof -
  define E where "E = unitRoundoff * M + tiny"
  have M: "0 \<le> M" using assms(1) by linarith
  have E: "0 \<le> E" using M unitRoundoff_bounds tiny_nonneg by (simp add: E_def)
  have e0: "\<bar>w - (X - x)\<bar> \<le> 2 * E"
    unfolding w_def fsub_def
    by (rule fl_lin' [where a = 2 and b = 0 and M = M]) (use assms M E_def in \<open>simp_all, linarith?\<close>)
  then have w: "\<bar>w\<bar> \<le> 2 * M + 2 * E" using assms by linarith
  have e1: "\<bar>fadd x w - (x + w)\<bar> \<le> 5 * E"
    unfolding fadd_def
    by (rule fl_lin' [where a = 3 and b = 2 and M = M]) (use assms M E_def w in \<open>simp_all, linarith?\<close>)
  have e2: "\<bar>fsub (fadd x w) L - (fadd x w - L)\<bar> \<le> 11 * E"
    unfolding fsub_def
    by (rule fl_lin' [where a = 4 and b = 7 and M = M]) (use assms M E_def w e1 in \<open>simp_all, linarith?\<close>)
  have e3: "\<bar>fsub (fsub (fadd x w) L) x - (fsub (fadd x w) L - x)\<bar> \<le> 23 * E"
    unfolding fsub_def [of "fsub (fadd x w) L"]
    by (rule fl_lin' [where a = 5 and b = 18 and M = M])
      (use assms M E_def w e1 e2 in \<open>simp_all, linarith?\<close>)
  from e1 e2 e3 show ?thesis unfolding E_def [symmetric] by linarith
qed

text \<open>The roundings of \<open>maxOutLength\<close>.\<close>

lemma maxOutLength_values:
  fixes x X C M :: real
  assumes "\<bar>x\<bar> \<le> M" "\<bar>X\<bar> \<le> M" "\<bar>C\<bar> \<le> M"
  defines "w \<equiv> fsub X x"
  defines "g \<equiv> fsub C w"
  shows "\<bar>fsub (fadd (fsub x g) C) (fsub x g) - C\<bar> \<le> 91 * (unitRoundoff * M + tiny)"
proof -
  define E where "E = unitRoundoff * M + tiny"
  have M: "0 \<le> M" using assms(1) by linarith
  have E: "0 \<le> E" using M unitRoundoff_bounds tiny_nonneg by (simp add: E_def)
  have e0: "\<bar>w - (X - x)\<bar> \<le> 2 * E"
    unfolding w_def fsub_def
    by (rule fl_lin' [where a = 2 and b = 0 and M = M]) (use assms M E_def in \<open>simp_all, linarith?\<close>)
  then have w: "\<bar>w\<bar> \<le> 2 * M + 2 * E" using assms by linarith
  have e1: "\<bar>g - (C - w)\<bar> \<le> 5 * E"
    unfolding g_def fsub_def
    by (rule fl_lin' [where a = 3 and b = 2 and M = M]) (use assms M E_def w in \<open>simp_all, linarith?\<close>)
  then have g: "\<bar>g\<bar> \<le> 3 * M + 7 * E" using assms w by linarith
  have e2: "\<bar>fsub x g - (x - g)\<bar> \<le> 11 * E"
    unfolding fsub_def
    by (rule fl_lin' [where a = 4 and b = 7 and M = M]) (use assms M E_def g in \<open>simp_all, linarith?\<close>)
  have e3: "\<bar>fadd (fsub x g) C - (fsub x g + C)\<bar> \<le> 23 * E"
    unfolding fadd_def
    by (rule fl_lin' [where a = 5 and b = 18 and M = M]) (use assms M E_def g e2 in \<open>simp_all, linarith?\<close>)
  have e4: "\<bar>fsub (fadd (fsub x g) C) (fsub x g) - (fadd (fsub x g) C - fsub x g)\<bar> \<le> 68 * E"
    unfolding fsub_def [of "fadd (fsub x g) C"]
    by (rule fl_lin' [where a = 9 and b = 59 and M = M])
      (use assms M E_def g e2 e3 in \<open>simp_all, linarith?\<close>)
  from e3 e4 show ?thesis unfolding E_def [symmetric] by linarith
qed

lemma fl_2_53: "fl 9007199254740992 = 9007199254740992"
  using fl_exact [of 9007199254740992 "2 ^ 52" 1] by (simp add: pow2_def)

lemma fl_2_53_plus_1: "fl 9007199254740993 = 9007199254740992"
  using fl_eqI [of 53 9007199254740993 1 "2 ^ 52"]
  by (simp add: pow2_def roundTiesToEven_def)

lemma fl_minus_1: "fl (- 1) = - 1"
  using fl_of_int [of "- 1"] by simp

subsection \<open>Helper facts\<close>

lemma distance_same_y: "vy p = vy q \<Longrightarrow> distance p q = \<bar>vx p - vx q\<bar>"
  by (simp add: distance_def)

lemmas seg_defs = getContainedLength_def getWidth_def getX_def getY_def setMinMax_def
  fadd_def fsub_def
  updateAttachmentSiteLocation_def getRemainingCapacity_def



lemma lengthPreceding_sum:
  "lengthPreceding h seg xs acc =
     acc + sum_list (map (\<lambda>a. getContainedLength (h a)) (takeWhile (\<lambda>a. a \<noteq> seg) xs))"
  by (induction xs arbitrary: acc) simp_all

lemma getProportionOfRnaTranslated_eq:
  "mapRibosomeToShapeSegment m (ribosomeId r) = Some seg \<Longrightarrow>
   getProportionOfRnaTranslated r m =
     Inr (js_max_zero (js_divide (translatedLengthOf m seg) (getLength m)))"
  by (simp add: getProportionOfRnaTranslated_def lengthPreceding_sum translatedLengthOf_def
      lengthPastEntrance_def getLowerRightCornerPos_def)

lemma getProportionOfRnaTranslated_overshoot:
  "getProportionOfRnaTranslated (exampleRibosome \<lparr>vx = 50, vy = 0\<rparr>) overshootStrand
     = Inr (Finite (3 / 2))"
  by (simp add: getProportionOfRnaTranslated_def overshootStrand_def strandOf_def storeOf_def
      flatSegment_def exampleRibosome_def lengthPastEntrance_def getLowerRightCornerPos_def
      getContainedLength_def getWidth_def setMinMax_def fsub_def getLength_def chainLength_def
      js_divide_def js_max_zero_def)

subsection \<open>Overflow splitting\<close>

lemma insertAfter_split:
  "a \<in> set xs \<Longrightarrow>
   \<exists>pre post. xs = pre @ a # post \<and> a \<notin> set pre \<and> insertAfter a n xs = Some (pre @ a # n # post)"
proof (induction xs)
  case Nil
  then show ?case by simp
next
  case (Cons x xs)
  show ?case
  proof (cases "x = a")
    case True
    then have "x # xs = [] @ a # xs \<and> a \<notin> set [] \<and> insertAfter a n (x # xs) = Some ([] @ a # n # xs)"
      by simp
    then show ?thesis by blast
  next
    case False
    with Cons obtain pre post where "xs = pre @ a # post" "a \<notin> set pre"
      "insertAfter a n xs = Some (pre @ a # n # post)" by auto
    with False have "x # xs = (x # pre) @ a # post \<and> a \<notin> set (x # pre) \<and>
        insertAfter a n (x # xs) = Some ((x # pre) @ a # n # post)" by simp
    then show ?thesis by blast
  qed
qed

lemmas flat_defs = getContainedLength_def getWidth_def getX_def getY_def setMinMax_def
  updateAttachmentSiteLocation_def getRemainingCapacity_def

lemma slack_ge:
  assumes "0 \<le> M" and "c \<le> 128"
  shows "c * (unitRoundoff * M + tiny) \<le> slack M"
proof -
  have "0 \<le> unitRoundoff * M + tiny" using assms(1) unitRoundoff_bounds tiny_nonneg by simp
  with assms(2) show ?thesis unfolding slack_def by (rule mult_right_mono)
qed

lemma FlatSegment_add_fits:
  assumes "kind (heap st this) = Flat"
    and "\<not> assertionsEnabled K \<or> getContainedLength (heap st this) \<le> capacity (heap st this)"
    and "fadd (getContainedLength (heap st this)) len \<le> capacity (heap st this)"
  shows "\<exists>st'. FlatSegment_add K len this st = Inr st' \<and>
           getContainedLength (heap st' this) =
             fsub (fadd (minX (bounds (heap st this))) (getContainedLength (heap st this)))
                  (fsub (minX (bounds (heap st this))) len) \<and>
           shapeSegments st' = shapeSegments st \<and> nextRef st' = nextRef st \<and>
           (\<forall>b. b \<noteq> this \<longrightarrow> heap st' b = heap st b) \<and>
           kind (heap st' this) = Flat \<and> capacity (heap st' this) = capacity (heap st this)"
  using assms
  by (auto simp: FlatSegment_add_def bindE_def modify_def flat_defs)

lemma FlatSegment_add_overflows:
  assumes "kind (heap st this) = Flat"
    and "\<not> assertionsEnabled K \<or> getContainedLength (heap st this) \<le> capacity (heap st this)"
    and "fadd (getContainedLength (heap st this)) len > capacity (heap st this)"
    and "this \<in> set (shapeSegments st)" and "this < nextRef st"
  shows "\<exists>st' pre post. FlatSegment_add K len this st = Inr st' \<and>
           getContainedLength (heap st' this) =
             fsub (fadd (minX (bounds (heap st this))) (getContainedLength (heap st this)))
                  (fsub (minX (bounds (heap st this))) (getRemainingCapacity (heap st this))) \<and>
           shapeSegments st = pre @ this # post \<and> this \<notin> set pre \<and>
           shapeSegments st' = pre @ this # nextRef st # post \<and>
           nextRef st' = Suc (nextRef st) \<and>
           kind (heap st' (nextRef st)) = Square \<and>
           getContainedLength (heap st' (nextRef st)) =
             fadd 0 (fsub len (getRemainingCapacity (heap st this))) \<and>
           (\<forall>b. b \<noteq> this \<and> b \<noteq> nextRef st \<longrightarrow> heap st' b = heap st b) \<and>
           kind (heap st' this) = Flat \<and> capacity (heap st' this) = capacity (heap st this)"
proof -
  from insertAfter_split [OF assms(4), of "nextRef st"] obtain pre post where
    sp: "shapeSegments st = pre @ this # post" "this \<notin> set pre"
      "insertAfter this (nextRef st) (shapeSegments st) = Some (pre @ this # nextRef st # post)"
    by blast
  show ?thesis
    using assms sp
    by (auto simp: FlatSegment_add_def bindE_def modify_def flat_defs SquareSegment_new_def alloc_def
        SquareSegment_add_def insertAfterShapeSegment_def ShapeSegment_init_def Let_def)
qed

text \<open>
  Claim C3. \<open>add( length )\<close> on a flat segment of the list that holds no more than its
  capacity \<open>C\<close>, where the coordinates of the segment, \<open>C\<close> and \<open>length\<close> are at most \<open>M\<close> in
  magnitude. The method compares the rounded sum of the contained length and \<open>length\<close>
  with \<open>C\<close>. When the sum is above \<open>C\<close>, the call returns, the segment then contains \<open>C\<close> up
  to the rounding slack at \<open>M\<close>, and a square segment created by the call stands
  immediately after it in the list and contains \<open>length - r\<close> up to that slack, \<open>r\<close> being
  the remaining capacity. Otherwise the segment grows by \<open>length\<close> up to that slack, the
  list is as it was and no segment has been created.
\<close>

theorem FlatSegment_add_overflow_splitting:
  assumes "kind (heap st this) = Flat"
    and "this \<in> set (shapeSegments st)" and "this < nextRef st"
    and "\<not> assertionsEnabled K \<or> getContainedLength (heap st this) \<le> capacity (heap st this)"
    and "\<bar>minX (bounds (heap st this))\<bar> \<le> M" and "\<bar>maxX (bounds (heap st this))\<bar> \<le> M"
    and "\<bar>capacity (heap st this)\<bar> \<le> M" and "\<bar>len\<bar> \<le> M" and "M \<le> pow2 1000"
  shows "(fadd (getContainedLength (heap st this)) len > capacity (heap st this) \<longrightarrow>
           (\<exists>st' pre post.
              FlatSegment_add K len this st = Inr st' \<and>
              \<bar>getContainedLength (heap st' this) - capacity (heap st this)\<bar> \<le> slack M \<and>
              shapeSegments st = pre @ this # post \<and> this \<notin> set pre \<and>
              shapeSegments st' = pre @ this # nextRef st # post \<and>
              nextRef st' = Suc (nextRef st) \<and>
              kind (heap st' (nextRef st)) = Square \<and>
              \<bar>getContainedLength (heap st' (nextRef st)) -
                 (len - getRemainingCapacity (heap st this))\<bar> \<le> slack M)) \<and>
         (fadd (getContainedLength (heap st this)) len \<le> capacity (heap st this) \<longrightarrow>
           (\<exists>st'.
              FlatSegment_add K len this st = Inr st' \<and>
              \<bar>getContainedLength (heap st' this) - (getContainedLength (heap st this) + len)\<bar>
                 \<le> slack M \<and>
              shapeSegments st' = shapeSegments st \<and> nextRef st' = nextRef st))"
proof (intro conjI impI)
  let ?x = "minX (bounds (heap st this))" and ?X = "maxX (bounds (heap st this))"
  let ?C = "capacity (heap st this)"
  have M: "0 \<le> M" using assms(5) by linarith
  have w: "getContainedLength (heap st this) = fsub ?X ?x"
    using assms(1) by (simp add: getContainedLength_def getWidth_def)
  have g: "getRemainingCapacity (heap st this) = fsub ?C (fsub ?X ?x)"
    by (simp add: getRemainingCapacity_def w)
  {
    assume over: "fadd (getContainedLength (heap st this)) len > capacity (heap st this)"
    from FlatSegment_add_overflows [OF assms(1) assms(4) over assms(2) assms(3)]
    obtain st' pre post where r: "FlatSegment_add K len this st = Inr st'"
      "getContainedLength (heap st' this) =
         fsub (fadd ?x (getContainedLength (heap st this)))
              (fsub ?x (getRemainingCapacity (heap st this)))"
      "shapeSegments st = pre @ this # post" "this \<notin> set pre"
      "shapeSegments st' = pre @ this # nextRef st # post"
      "nextRef st' = Suc (nextRef st)"
      "kind (heap st' (nextRef st)) = Square"
      "getContainedLength (heap st' (nextRef st)) = fadd 0 (fsub len (getRemainingCapacity (heap st this)))"
      by blast
    note v = add_overflow_values [OF assms(5) assms(6) assms(8) assms(7)]
    have "\<bar>getContainedLength (heap st' this) - ?C\<bar> \<le> slack M"
      unfolding r(2) w g using v(1) slack_ge [OF M, of 53] by simp
    moreover have "\<bar>getContainedLength (heap st' (nextRef st)) -
        (len - getRemainingCapacity (heap st this))\<bar> \<le> slack M"
      unfolding r(8) g using v(2) slack_ge [OF M, of 33] by simp
    ultimately show "\<exists>st' pre post.
              FlatSegment_add K len this st = Inr st' \<and>
              \<bar>getContainedLength (heap st' this) - capacity (heap st this)\<bar> \<le> slack M \<and>
              shapeSegments st = pre @ this # post \<and> this \<notin> set pre \<and>
              shapeSegments st' = pre @ this # nextRef st # post \<and>
              nextRef st' = Suc (nextRef st) \<and>
              kind (heap st' (nextRef st)) = Square \<and>
              \<bar>getContainedLength (heap st' (nextRef st)) -
                 (len - getRemainingCapacity (heap st this))\<bar> \<le> slack M"
      using r by blast
  }
  {
    assume fits: "fadd (getContainedLength (heap st this)) len \<le> capacity (heap st this)"
    from FlatSegment_add_fits [OF assms(1) assms(4) fits]
    obtain st' where r: "FlatSegment_add K len this st = Inr st'"
      "getContainedLength (heap st' this) =
         fsub (fadd ?x (getContainedLength (heap st this))) (fsub ?x len)"
      "shapeSegments st' = shapeSegments st" "nextRef st' = nextRef st"
      by blast
    note v = add_fits_values [OF assms(5) assms(6) assms(8)]
    have "\<bar>getContainedLength (heap st' this) - (getContainedLength (heap st this) + len)\<bar> \<le> slack M"
      unfolding r(2) w using v slack_ge [OF M, of 21] by simp
    then show "\<exists>st'.
              FlatSegment_add K len this st = Inr st' \<and>
              \<bar>getContainedLength (heap st' this) - (getContainedLength (heap st this) + len)\<bar>
                 \<le> slack M \<and>
              shapeSegments st' = shapeSegments st \<and> nextRef st' = nextRef st"
      using r by blast
  }
qed

text \<open>
  The scenario of the spec: a flat segment of capacity 200 that contains 150 takes
  \<open>add( 100 )\<close>; it ends at 200 and a new square segment behind it holds 50.
\<close>

theorem FlatSegment_add_overflow_splitting_witness:
  "kind (heap (storeOf [flatSegment 0 150 200]) 0) = Flat \<and>
   0 \<in> set (shapeSegments (storeOf [flatSegment 0 150 200])) \<and>
   getContainedLength (heap (storeOf [flatSegment 0 150 200]) 0) = 150 \<and>
   getRemainingCapacity (heap (storeOf [flatSegment 0 150 200]) 0) = 50 \<and>
   fadd (getContainedLength (heap (storeOf [flatSegment 0 150 200]) 0)) 100
     > capacity (heap (storeOf [flatSegment 0 150 200]) 0) \<and>
   (200 :: real) \<le> pow2 1000 \<and>
   (\<exists>st'. FlatSegment_add exampleParams 100 0 (storeOf [flatSegment 0 150 200]) = Inr st' \<and>
      \<bar>getContainedLength (heap st' 0) - 200\<bar> \<le> slack 200 \<and>
      shapeSegments st' = [0, 1] \<and>
      kind (heap st' 1) = Square \<and>
      \<bar>getContainedLength (heap st' 1) - 50\<bar> \<le> slack 200)"
proof -
  let ?st = "storeOf [flatSegment 0 150 200]"
  have k: "kind (heap ?st 0) = Flat"
    by (simp add: storeOf_def flatSegment_def)
  have i: "0 \<in> set (shapeSegments ?st)"
    by (simp add: storeOf_def)
  have n: "0 < nextRef ?st"
    by (simp add: storeOf_def)
  have w: "getContainedLength (heap ?st 0) = 150"
    by (simp add: storeOf_def flatSegment_def seg_defs)
  have a: "\<not> assertionsEnabled exampleParams \<or>
      getContainedLength (heap ?st 0) \<le> capacity (heap ?st 0)"
    by (simp add: storeOf_def flatSegment_def seg_defs)
  have r: "getRemainingCapacity (heap ?st 0) = 50"
    by (simp add: storeOf_def flatSegment_def seg_defs)
  have l: "shapeSegments ?st = [0]"
    and c: "capacity (heap ?st 0) = 200"
    and x: "nextRef ?st = 1"
    by (simp_all add: storeOf_def flatSegment_def)
  have b: "\<bar>minX (bounds (heap ?st 0))\<bar> \<le> 200" "\<bar>maxX (bounds (heap ?st 0))\<bar> \<le> 200"
    "\<bar>capacity (heap ?st 0)\<bar> \<le> 200" "\<bar>100 :: real\<bar> \<le> 200"
    by (simp_all add: storeOf_def flatSegment_def setMinMax_def)
  have p: "(200 :: real) \<le> pow2 1000"
  proof -
    have "(200 :: real) \<le> 2 ^ 8" by simp
    also have "\<dots> \<le> 2 ^ 1000" by (rule power_increasing) simp_all
    finally show ?thesis by (simp add: pow2_def)
  qed
  have over: "fadd (getContainedLength (heap ?st 0)) 100 > capacity (heap ?st 0)"
    unfolding w c by (simp add: fadd_def)
  from FlatSegment_add_overflow_splitting [OF k i n a b p, THEN conjunct1, rule_format, OF over]
  obtain st' pre post where
    "FlatSegment_add exampleParams 100 0 ?st = Inr st'"
    "\<bar>getContainedLength (heap st' 0) - 200\<bar> \<le> slack 200"
    "[0] = pre @ 0 # post" "shapeSegments st' = pre @ 0 # 1 # post"
    "kind (heap st' 1) = Square" "\<bar>getContainedLength (heap st' 1) - 50\<bar> \<le> slack 200"
    unfolding r l c x by auto
  moreover from \<open>[0] = pre @ 0 # post\<close> have "pre = [] \<and> post = []"
    by (cases pre) auto
  ultimately have "\<exists>st'. FlatSegment_add exampleParams 100 0 ?st = Inr st' \<and>
      \<bar>getContainedLength (heap st' 0) - 200\<bar> \<le> slack 200 \<and>
      shapeSegments st' = [0, 1] \<and>
      kind (heap st' 1) = Square \<and>
      \<bar>getContainedLength (heap st' 1) - 50\<bar> \<le> slack 200"
    by auto
  with k i w r over p show ?thesis by (intro conjI)
qed

text \<open>
  Without the slack the claim fails in double arithmetic. A full segment from \<open>0\<close> to
  \<open>2\<^sup>5\<^sup>3\<close> has no room left, yet \<open>add( 1 )\<close> creates no segment: \<open>2\<^sup>5\<^sup>3 + 1\<close> rounds to
  \<open>2\<^sup>5\<^sup>3\<close>, which is not above the capacity, and the segment still contains \<open>2\<^sup>5\<^sup>3\<close>. The
  segment from 100.3 to 251 with capacity 200.1 does split on \<open>add( 100 )\<close>, and then
  contains one spacing of the doubles more than its capacity.
\<close>

theorem FlatSegment_add_rounds:
  "getRemainingCapacity (heap (storeOf [flatSegment 0 9007199254740992 9007199254740992]) 0) = 0 \<and>
   map_sum id containedLengths
     (FlatSegment_add exampleParams 1 0 (storeOf [flatSegment 0 9007199254740992 9007199254740992]))
     = Inr [9007199254740992] \<and>
   capacity (heap (storeOf [flatSegment nearest_100_3 251 nearest_200_1]) 0) = 7040392854975283 / 2 ^ 45 \<and>
   map_sum id containedLengths
     (FlatSegment_add exampleParams 100 0 (storeOf [flatSegment nearest_100_3 251 nearest_200_1]))
     = Inr [7040392854975284 / 2 ^ 45, 1780329227694899 / 2 ^ 45]"
proof -
  have A1: "getRemainingCapacity (heap (storeOf [flatSegment 0 9007199254740992 9007199254740992]) 0) = 0"
    by (simp add: storeOf_def flatSegment_def flat_defs fsub_def fl_2_53)
  have A2: "map_sum id containedLengths
     (FlatSegment_add exampleParams 1 0 (storeOf [flatSegment 0 9007199254740992 9007199254740992]))
     = Inr [9007199254740992]"
    by (simp add: FlatSegment_add_def bindE_def modify_def flat_defs storeOf_def flatSegment_def
        exampleParams_def containedLengths_def fadd_def fsub_def fl_2_53 fl_2_53_plus_1 fl_minus_1)
  define W :: real where "W = 2651142436893491 / 2 ^ 44"
  define T :: real where "T = 4410361041335091 / 2 ^ 44"
  define G :: real where "G = 1738107981188301 / 2 ^ 45"
  define B :: real where "B = 3581769078643097 / 2 ^ 46"
  define R :: real where "R = 7040392854975284 / 2 ^ 45"
  define V :: real where "V = 1780329227694899 / 2 ^ 45"
  have a1: "fsub 251 nearest_100_3 = W"
    unfolding fsub_def nearest_100_3_def W_def
    using fl_eqI [of 7 "251 - 7057985041019699 / 2 ^ 46" "- 45" 5302284873786982]
    by (simp add: pow2_def roundTiesToEven_def)
  have a2: "fadd W 100 = T"
    unfolding fadd_def W_def T_def
    using fl_eqI [of 7 "2651142436893491 / 2 ^ 44 + 100" "- 45" 8820722082670182]
    by (simp add: pow2_def roundTiesToEven_def)
  have a3: "fsub nearest_200_1 W = G"
    unfolding fsub_def nearest_200_1_def W_def G_def
    using fl_eqI [of 5 "7040392854975283 / 2 ^ 45 - 2651142436893491 / 2 ^ 44" "- 47" 6952431924753204]
    by (simp add: pow2_def roundTiesToEven_def)
  have a4: "fsub nearest_100_3 G = B"
    unfolding fsub_def nearest_100_3_def G_def B_def
    using fl_eqI [of 5 "7057985041019699 / 2 ^ 46 - 1738107981188301 / 2 ^ 45" "- 47" 7163538157286194]
    by (simp add: pow2_def roundTiesToEven_def)
  have a5: "fadd nearest_100_3 W = 251"
    unfolding fadd_def nearest_100_3_def W_def
    using fl_eqI [of 7 "7057985041019699 / 2 ^ 46 + 2651142436893491 / 2 ^ 44" "- 45" 8831277394296832]
    by (simp add: pow2_def roundTiesToEven_def)
  have a6: "fsub 251 B = R"
    unfolding fsub_def B_def R_def
    using fl_eqI [of 7 "251 - 3581769078643097 / 2 ^ 46" "- 45" 7040392854975284]
    by (simp add: pow2_def roundTiesToEven_def)
  have a7: "fsub 100 G = V"
    unfolding fsub_def G_def V_def
    using fl_eqI [of 5 "100 - 1738107981188301 / 2 ^ 45" "- 47" 7121316910779596]
    by (simp add: pow2_def roundTiesToEven_def)
  have a8: "fadd 0 V = V"
    unfolding fadd_def V_def
    using fl_eqI [of 5 "0 + 1780329227694899 / 2 ^ 45" "- 47" 7121316910779596]
    by (simp add: pow2_def roundTiesToEven_def)
  have c1: "W \<le> nearest_200_1" "nearest_200_1 < T"
    by (simp_all add: W_def T_def nearest_200_1_def)
  have B1: "capacity (heap (storeOf [flatSegment nearest_100_3 251 nearest_200_1]) 0) = 7040392854975283 / 2 ^ 45"
    by (simp add: storeOf_def flatSegment_def nearest_200_1_def)
  have "map_sum id containedLengths
     (FlatSegment_add exampleParams 100 0 (storeOf [flatSegment nearest_100_3 251 nearest_200_1]))
     = Inr [R, V]"
    by (simp add: FlatSegment_add_def bindE_def modify_def flat_defs storeOf_def flatSegment_def
        exampleParams_def containedLengths_def SquareSegment_new_def alloc_def
        SquareSegment_add_def insertAfterShapeSegment_def ShapeSegment_init_def Let_def
        getLowerRightCornerPos_def a1 a2 a3 a4 a5 a6 a7 a8 c1)
  then have B2: "map_sum id containedLengths
     (FlatSegment_add exampleParams 100 0 (storeOf [flatSegment nearest_100_3 251 nearest_200_1]))
     = Inr [7040392854975284 / 2 ^ 45, 1780329227694899 / 2 ^ 45]"
    unfolding R_def V_def .
  from A1 A2 B1 B2 show ?thesis by (intro conjI)
qed

subsection \<open>Proposals and destruction\<close>






text \<open>
  Claim C9. A proposal that is answered with \<open>null\<close> leaves the strand exactly as it was:
  the ribosome map, the destroyer reference and the trace of state machine calls are
  those of before.
\<close>

theorem rejected_proposals_change_nothing:
  "(considerProposalFromByRibosome r m = Inr (None, m') \<longrightarrow>
      m' = m \<and> mapRibosomeToShapeSegment m' = mapRibosomeToShapeSegment m \<and>
      messengerRnaDestroyer m' = messengerRnaDestroyer m \<and> asmCalls m' = asmCalls m) \<and>
   (considerProposalFromByMessengerRnaDestroyer d m = Inr (None, m') \<longrightarrow>
      m' = m \<and> mapRibosomeToShapeSegment m' = mapRibosomeToShapeSegment m \<and>
      messengerRnaDestroyer m' = messengerRnaDestroyer m \<and> asmCalls m' = asmCalls m)"
  by (auto simp: considerProposalFromByRibosome_def considerProposalFromByMessengerRnaDestroyer_def
      Let_def split: if_splits list.splits)

text \<open>A ribosome and a destroyer 500 away from the attachment site are both turned down.\<close>

theorem rejected_proposals_change_nothing_witness:
  "considerProposalFromByRibosome (exampleRibosome \<lparr>vx = 500, vy = 0\<rparr>)
       (strandOf [flatSegment 0 50 100] [50])
     = Inr (None, strandOf [flatSegment 0 50 100] [50]) \<and>
   considerProposalFromByMessengerRnaDestroyer (exampleDestroyer \<lparr>vx = 500, vy = 0\<rparr>)
       (strandOf [flatSegment 0 50 100] [50])
     = Inr (None, strandOf [flatSegment 0 50 100] [50]) \<and>
   asmCalls (strandOf [flatSegment 0 50 100] [50]) = []"
  using rejected_proposals_change_nothing [of "exampleRibosome \<lparr>vx = 500, vy = 0\<rparr>"
      "strandOf [flatSegment 0 50 100] [50]" "strandOf [flatSegment 0 50 100] [50]"
      "exampleDestroyer \<lparr>vx = 500, vy = 0\<rparr>"]
  by (simp add: considerProposalFromByRibosome_def considerProposalFromByMessengerRnaDestroyer_def
      strandOf_def storeOf_def flatSegment_def exampleRibosome_def exampleDestroyer_def
      distance_same_y RIBOSOME_CONNECTION_DISTANCE_def MRNA_DESTROYER_CONNECT_DISTANCE_def)

text \<open>
  Claim C8. With no segment connected to a destroyer, \<open>advanceDestruction\<close> logs its
  warning and returns \<open>true\<close>; it raises nothing, and apart from the console line the
  strand, its segment list and its point chain among the rest, is as it was.
\<close>

theorem advanceDestruction_without_segment:
  "segmentWhereDestroyerConnects m = None \<Longrightarrow>
   advanceDestruction K len m =
     Inr (True, m\<lparr>console := console m @
        ['' - Warning: Attempt to advance the destruction of mRNA that has no content left.'']\<rparr>)"
  by (simp add: advanceDestruction_def consoleLog_def)

theorem advanceDestruction_without_segment_witness:
  "segmentWhereDestroyerConnects (strandOf [flatSegment 0 50 100] [50]) = None \<and>
   advanceDestruction exampleParams 10 (strandOf [flatSegment 0 50 100] [50]) =
     Inr (True, (strandOf [flatSegment 0 50 100] [50])\<lparr>console :=
        ['' - Warning: Attempt to advance the destruction of mRNA that has no content left.'']\<rparr>)"
  using advanceDestruction_without_segment [of "strandOf [flatSegment 0 50 100] [50]" exampleParams 10]
  by (simp add: strandOf_def)

subsection \<open>Translation progress\<close>

lemma advanceTranslation_never_returns:
  "advanceTranslation K ribosome len m \<noteq> Inr result"
  by (simp add: advanceTranslation_def advanceWithSegmentArray_def bindE_def
      split: option.split SegmentKind.split)


subsection \<open>Attachment location of a ribosome that is not attached\<close>

text \<open>
  Claim C7, as stated, has the call return a zero vector. For a ribosome that is not in
  the map the source returns \<open>null\<close>: the result is not the zero vector.
\<close>

theorem getRibosomeAttachmentLocation_not_zero_vector:
  "mapRibosomeToShapeSegment (strandOf [flatSegment 0 50 100] [50])
       (ribosomeId (exampleRibosome \<lparr>vx = 0, vy = 0\<rparr>)) = None \<and>
   fst (getRibosomeAttachmentLocation exampleParams (exampleRibosome \<lparr>vx = 0, vy = 0\<rparr>)
          (strandOf [flatSegment 0 50 100] [50])) \<noteq> Some \<lparr>vx = 0, vy = 0\<rparr>"
  by (simp add: getRibosomeAttachmentLocation_def strandOf_def)

text \<open>
  Claim C7, amended. For a ribosome that is not in the ribosome-to-segment map,
  \<open>getRibosomeAttachmentLocation\<close> logs its warning and returns \<open>null\<close>; it raises nothing
  and changes nothing else.
\<close>

theorem getRibosomeAttachmentLocation_unattached:
  "mapRibosomeToShapeSegment m (ribosomeId r) = None \<Longrightarrow>
   getRibosomeAttachmentLocation K r m =
     (None, m\<lparr>console := console m @
        ['' Warning: Ignoring attempt to obtain attachment point for non-attached ribosome.'']\<rparr>)"
  by (simp add: getRibosomeAttachmentLocation_def consoleLog_def)

theorem getRibosomeAttachmentLocation_unattached_witness:
  "mapRibosomeToShapeSegment (strandOf [flatSegment 0 50 100] [50])
       (ribosomeId (exampleRibosome \<lparr>vx = 0, vy = 0\<rparr>)) = None \<and>
   getRibosomeAttachmentLocation exampleParams (exampleRibosome \<lparr>vx = 0, vy = 0\<rparr>)
          (strandOf [flatSegment 0 50 100] [50]) =
     (None, (strandOf [flatSegment 0 50 100] [50])\<lparr>console :=
        ['' Warning: Ignoring attempt to obtain attachment point for non-attached ribosome.'']\<rparr>)"
  using getRibosomeAttachmentLocation_unattached [of "strandOf [flatSegment 0 50 100] [50]"
      "exampleRibosome \<lparr>vx = 0, vy = 0\<rparr>" exampleParams]
  by (simp add: strandOf_def)

subsection \<open>Proportion of the strand translated\<close>

text \<open>
  Claim C6, as stated, has the result always non-negative. On a strand of length zero
  whose translated length is zero the quotient is \<open>0 / 0\<close>, and \<open>Math.max\<close> hands the
  \<open>NaN\<close> on: the result is not a non-negative number.
\<close>

theorem getProportionOfRnaTranslated_NaN:
  "mapRibosomeToShapeSegment emptyStrand (ribosomeId (exampleRibosome \<lparr>vx = 0, vy = 0\<rparr>)) = Some 0 \<and>
   getProportionOfRnaTranslated (exampleRibosome \<lparr>vx = 0, vy = 0\<rparr>) emptyStrand = Inr NaN \<and>
   \<not> js_nonnegative NaN"
  by (simp add: getProportionOfRnaTranslated_def emptyStrand_def strandOf_def storeOf_def
      flatSegment_def exampleRibosome_def lengthPastEntrance_def getLowerRightCornerPos_def
      getContainedLength_def getWidth_def setMinMax_def fsub_def getLength_def chainLength_def
      js_divide_def js_max_zero_def)

text \<open>
  Claim C6, amended. For a ribosome attached to a strand, \<open>getProportionOfRnaTranslated\<close>
  returns the translated length (the contained lengths of the segments before the
  ribosome's segment, plus its own contained length less the distance from its lower
  right corner to its attachment site) divided by the total strand length and clamped
  below at 0 by \<open>Math.max\<close>, with no clamp above: on a strand of nonzero length it is the
  number \<open>max (translated / total) 0\<close>, the result is non-negative unless both lengths are
  zero, and it does exceed 1 on some strand.
\<close>

theorem getProportionOfRnaTranslated_clamped_below_only:
  assumes "mapRibosomeToShapeSegment m (ribosomeId r) = Some seg"
  shows "getProportionOfRnaTranslated r m =
           Inr (js_max_zero (js_divide (translatedLengthOf m seg) (getLength m))) \<and>
         (getLength m \<noteq> 0 \<longrightarrow>
            getProportionOfRnaTranslated r m =
              Inr (Finite (max (translatedLengthOf m seg / getLength m) 0))) \<and>
         (getLength m \<noteq> 0 \<or> translatedLengthOf m seg \<noteq> 0 \<longrightarrow>
            (\<exists>v. getProportionOfRnaTranslated r m = Inr v \<and> js_nonnegative v)) \<and>
         (\<exists>r' m' v. mapRibosomeToShapeSegment m' (ribosomeId r') \<noteq> None \<and>
            getProportionOfRnaTranslated r' m' = Inr v \<and> js_greater_than v 1)"
proof -
  have eq: "getProportionOfRnaTranslated r m =
      Inr (js_max_zero (js_divide (translatedLengthOf m seg) (getLength m)))"
    by (rule getProportionOfRnaTranslated_eq [OF assms])
  have fin: "getLength m \<noteq> 0 \<longrightarrow> getProportionOfRnaTranslated r m =
      Inr (Finite (max (translatedLengthOf m seg / getLength m) 0))"
    by (simp add: eq js_divide_def js_max_zero_def)
  have nonneg: "getLength m \<noteq> 0 \<or> translatedLengthOf m seg \<noteq> 0 \<longrightarrow>
      (\<exists>v. getProportionOfRnaTranslated r m = Inr v \<and> js_nonnegative v)"
    by (auto simp: eq js_divide_def js_max_zero_def)
  have "mapRibosomeToShapeSegment overshootStrand (ribosomeId (exampleRibosome \<lparr>vx = 50, vy = 0\<rparr>)) \<noteq> None"
    by (simp add: overshootStrand_def exampleRibosome_def)
  moreover have "js_greater_than (Finite (3 / 2)) 1" by simp
  ultimately have ex: "\<exists>r' m' v. mapRibosomeToShapeSegment m' (ribosomeId r') \<noteq> None \<and>
      getProportionOfRnaTranslated r' m' = Inr v \<and> js_greater_than v 1"
    using getProportionOfRnaTranslated_overshoot by blast
  from eq fin nonneg ex show ?thesis by blast
qed

theorem getProportionOfRnaTranslated_clamped_below_only_witness:
  "mapRibosomeToShapeSegment overshootStrand (ribosomeId (exampleRibosome \<lparr>vx = 50, vy = 0\<rparr>)) = Some 0 \<and>
   getLength overshootStrand = 100 \<and>
   translatedLengthOf overshootStrand 0 = 150 \<and>
   getProportionOfRnaTranslated (exampleRibosome \<lparr>vx = 50, vy = 0\<rparr>) overshootStrand = Inr (Finite (3 / 2))"
proof -
  have a: "mapRibosomeToShapeSegment overshootStrand (ribosomeId (exampleRibosome \<lparr>vx = 50, vy = 0\<rparr>)) = Some 0"
    by (simp add: overshootStrand_def exampleRibosome_def)
  have l: "getLength overshootStrand = 100"
    by (simp add: overshootStrand_def strandOf_def getLength_def chainLength_def)
  have t: "translatedLengthOf overshootStrand 0 = 150"
    by (simp add: overshootStrand_def strandOf_def storeOf_def flatSegment_def translatedLengthOf_def
        seg_defs)
  from getProportionOfRnaTranslated_clamped_below_only [OF a]
  have "getLength overshootStrand \<noteq> 0 \<longrightarrow>
      getProportionOfRnaTranslated (exampleRibosome \<lparr>vx = 50, vy = 0\<rparr>) overshootStrand =
        Inr (Finite (max (translatedLengthOf overshootStrand 0 / getLength overshootStrand) 0))"
    by blast
  then have "getProportionOfRnaTranslated (exampleRibosome \<lparr>vx = 50, vy = 0\<rparr>) overshootStrand =
      Inr (Finite (3 / 2))"
    by (simp add: l t)
  with a l t show ?thesis by blast
qed

subsection \<open>Flat segments stay flat\<close>

lemma flat_list [simp]: "flatSegmentsHaveNoHeight (st\<lparr>shapeSegments := l\<rparr>) = flatSegmentsHaveNoHeight st"
  by (simp add: flatSegmentsHaveNoHeight_def)

lemma flat_modify:
  "flatSegmentsHaveNoHeight st \<Longrightarrow> (\<And>s. flatHasNoHeight s \<Longrightarrow> flatHasNoHeight (f s)) \<Longrightarrow>
   flatSegmentsHaveNoHeight (modify a f st)"
  by (auto simp: flatSegmentsHaveNoHeight_def modify_def)

lemma flat_alloc:
  "flatSegmentsHaveNoHeight st \<Longrightarrow> flatHasNoHeight s \<Longrightarrow> flatSegmentsHaveNoHeight (snd (alloc s st))"
  by (auto simp: flatSegmentsHaveNoHeight_def alloc_def less_Suc_eq)

lemma flat_update [simp]:
  "flatHasNoHeight (updateAttachmentSiteLocation K s) = flatHasNoHeight s"
  by (simp add: flatHasNoHeight_def updateAttachmentSiteLocation_def)

lemma flat_setCapacity [simp]: "flatHasNoHeight (setCapacity c s) = flatHasNoHeight s"
  by (simp add: flatHasNoHeight_def setCapacity_def)

lemma flat_level [simp]: "flatHasNoHeight (s\<lparr>bounds := setMinMax x0 y0 x1 y0\<rparr>)"
  by (simp add: flatHasNoHeight_def setMinMax_def getHeight_def)

lemma flat_squareLength [simp]: "flatHasNoHeight (s\<lparr>squareLength := l\<rparr>) = flatHasNoHeight s"
  by (simp add: flatHasNoHeight_def)

lemma flat_init [simp]: "flatHasNoHeight (ShapeSegment_init K k origin)"
  by (simp add: ShapeSegment_init_def flatHasNoHeight_def setMinMax_def getHeight_def
      updateAttachmentSiteLocation_def)

lemma flat_dropIfEmpty [simp]: "flatSegmentsHaveNoHeight (dropIfEmpty K a st) = flatSegmentsHaveNoHeight st"
  by (simp add: dropIfEmpty_def)

lemma flat_FlatSegment_remove:
  "flatSegmentsHaveNoHeight st \<Longrightarrow> flatSegmentsHaveNoHeight (FlatSegment_remove K len this st)"
  by (simp add: FlatSegment_remove_def flat_modify)

lemma flat_SquareSegment_remove:
  "flatSegmentsHaveNoHeight st \<Longrightarrow> flatSegmentsHaveNoHeight (SquareSegment_remove K len this st)"
  by (simp add: SquareSegment_remove_def flat_modify)

lemma flat_ShapeSegment_remove:
  "flatSegmentsHaveNoHeight st \<Longrightarrow> flatSegmentsHaveNoHeight (ShapeSegment_remove K len this st)"
  by (simp add: ShapeSegment_remove_def flat_FlatSegment_remove flat_SquareSegment_remove
      split: SegmentKind.split)

lemma flat_maxOutLength:
  "flatSegmentsHaveNoHeight st \<Longrightarrow> flatSegmentsHaveNoHeight (maxOutLength K this st)"
  by (simp add: maxOutLength_def flat_modify Let_def)

lemma flat_SquareSegment_add:
  "flatSegmentsHaveNoHeight st \<Longrightarrow> flatSegmentsHaveNoHeight (SquareSegment_add K len this st)"
  by (simp add: SquareSegment_add_def flat_modify)

lemma flat_insertAfter:
  "insertAfterShapeSegment a b st = Inr st' \<Longrightarrow> flatSegmentsHaveNoHeight st' = flatSegmentsHaveNoHeight st"
  by (auto simp: insertAfterShapeSegment_def split: option.splits)

lemma flat_insertBefore:
  "insertBeforeShapeSegment a b st = Inr st' \<Longrightarrow> flatSegmentsHaveNoHeight st' = flatSegmentsHaveNoHeight st"
  by (auto simp: insertBeforeShapeSegment_def split: option.splits)

lemma flat_FlatSegment_add:
  assumes "flatSegmentsHaveNoHeight st" and "FlatSegment_add K len this st = Inr st'"
  shows "flatSegmentsHaveNoHeight st'"
proof (cases "fadd (getContainedLength (heap st this)) len > capacity (heap st this)")
  case True
  define st1 where "st1 = snd (SquareSegment_new K (getLowerRightCornerPos (heap st this)) st)"
  define st2 where "st2 = SquareSegment_add K
      (fsub len (fsub (capacity (heap st1 this)) (getContainedLength (heap st1 this)))) (nextRef st) st1"
  have f2: "flatSegmentsHaveNoHeight st2"
    unfolding st2_def st1_def SquareSegment_new_def
    by (intro flat_SquareSegment_add flat_alloc assms(1)) simp
  from assms(2) True obtain st3 where
    ins: "insertAfterShapeSegment this (nextRef st) st2 = Inr st3"
    and res: "st' = modify this
                   (\<lambda>s. updateAttachmentSiteLocation K
                          (s\<lparr>bounds := setMinMax (fsub (getX (bounds s)) (fsub (capacity (heap st1 this)) (getContainedLength (heap st1 this)))) (getY (bounds s))
                                                 (fadd (getX (bounds s)) (getWidth (bounds s))) (getY (bounds s))\<rparr>))
                   st3"
    by (auto simp: FlatSegment_add_def bindE_def SquareSegment_new_def alloc_def st1_def st2_def
        Let_def split: if_splits sum.splits)
  from flat_insertAfter [OF ins] f2 have "flatSegmentsHaveNoHeight st3" by simp
  then show ?thesis unfolding res by (intro flat_modify) simp_all
next
  case False
  with assms(2) have "st' = modify this
                   (\<lambda>s. updateAttachmentSiteLocation K
                          (s\<lparr>bounds := setMinMax (fsub (getX (bounds s)) len) (getY (bounds s))
                                                 (fadd (getX (bounds s)) (getWidth (bounds s))) (getY (bounds s))\<rparr>))
                   st"
    by (auto simp: FlatSegment_add_def bindE_def split: if_splits)
  with assms(1) show ?thesis by (simp add: flat_modify)
qed

lemma flat_ShapeSegment_add:
  "flatSegmentsHaveNoHeight st \<Longrightarrow> ShapeSegment_add K len a st = Inr st' \<Longrightarrow> flatSegmentsHaveNoHeight st'"
  by (auto simp: ShapeSegment_add_def flat_SquareSegment_add split: SegmentKind.splits
      dest: flat_FlatSegment_add)

lemma flat_addToOutput:
  "flatSegmentsHaveNoHeight st \<Longrightarrow> addToOutput K len out st = Inr st' \<Longrightarrow> flatSegmentsHaveNoHeight st'"
  by (auto simp: addToOutput_def split: option.splits dest: flat_ShapeSegment_add)

lemma flat_advanceNoInput:
  "flatSegmentsHaveNoHeight st \<Longrightarrow> advanceNoInput K len this out st = Inr st' \<Longrightarrow> flatSegmentsHaveNoHeight st'"
  unfolding advanceNoInput_def Let_def
  by (erule flat_addToOutput [rotated]) (rule flat_FlatSegment_remove)

lemma flat_advanceDrain:
  "flatSegmentsHaveNoHeight st \<Longrightarrow> advanceDrain K len this out inp st = Inr st' \<Longrightarrow> flatSegmentsHaveNoHeight st'"
  unfolding advanceDrain_def Let_def
  by (erule flat_addToOutput [rotated]) (intro flat_ShapeSegment_remove flat_FlatSegment_remove)

lemma flat_newLeader:
  assumes "flatSegmentsHaveNoHeight st"
  shows "flatSegmentsHaveNoHeight
           (modify (fst (FlatSegment_new K origin st)) (setCapacity c) (snd (FlatSegment_new K origin st)))"
  unfolding FlatSegment_new_def
  by (intro flat_modify flat_alloc assms) simp_all

lemma flat_advancePull:
  assumes "flatSegmentsHaveNoHeight st" and "advancePull K len this out inp st = Inr st'"
  shows "flatSegmentsHaveNoHeight st'"
proof -
  from assms(2) obtain st6 where st': "st' = ShapeSegment_remove K len inp st6"
    and first: "(if fadd (getContainedLength (heap st this)) len \<le> capacity (heap st this) then
          FlatSegment_add K len this st
        else
          (let remainingCapacity = getRemainingCapacity (heap st this)
           in bindE
                (if remainingCapacity > FLOATING_POINT_COMP_FACTOR K then
                   (let st1 = maxOutLength K this st
                    in if assertionsEnabled K \<and> out \<noteq> None then Inl AssertionError
                       else
                         (let (newLeaderSegment, st2) =
                                FlatSegment_new K (getUpperLeftCornerPos (heap st1 this)) st1;
                              st3 = modify newLeaderSegment (setCapacity (LEADER_LENGTH K)) st2
                          in bindE (insertBeforeShapeSegment this newLeaderSegment st3)
                               (\<lambda>st4. Inr (Some newLeaderSegment, st4))))
                 else Inr (out, st))
                (\<lambda>(out, st5). addToOutput K (fsub len remainingCapacity) out st5))) = Inr st6"
    by (auto simp: advancePull_def bindE_def split: sum.splits)
  have "flatSegmentsHaveNoHeight st6"
  proof (cases "fadd (getContainedLength (heap st this)) len \<le> capacity (heap st this)")
    case True
    with first assms(1) show ?thesis by (auto dest: flat_FlatSegment_add)
  next
    case False
    show ?thesis
    proof (cases "getRemainingCapacity (heap st this) > FLOATING_POINT_COMP_FACTOR K")
      case notfull: True
      define st1 where "st1 = maxOutLength K this st"
      define origin where "origin = getUpperLeftCornerPos (heap st1 this)"
      define st3 where "st3 = modify (fst (FlatSegment_new K origin st1)) (setCapacity (LEADER_LENGTH K))
          (snd (FlatSegment_new K origin st1))"
      have f3: "flatSegmentsHaveNoHeight st3"
        unfolding st3_def by (intro flat_newLeader) (simp add: st1_def flat_maxOutLength assms(1))
      from first False notfull obtain st4 where
        ins: "insertBeforeShapeSegment this (fst (FlatSegment_new K origin st1)) st3 = Inr st4"
        and add: "addToOutput K (fsub len (getRemainingCapacity (heap st this)))
                    (Some (fst (FlatSegment_new K origin st1))) st4 = Inr st6"
        by (auto simp: bindE_def Let_def st1_def origin_def st3_def split_beta
            split: if_splits sum.splits)
      from flat_insertBefore [OF ins] f3 have "flatSegmentsHaveNoHeight st4" by simp
      then show ?thesis using add by (rule flat_addToOutput)
    next
      case full: False
      with first False have "addToOutput K (fsub len (getRemainingCapacity (heap st this))) out st = Inr st6"
        by (auto simp: bindE_def Let_def)
      with assms(1) show ?thesis by (rule flat_addToOutput)
    qed
  qed
  then show ?thesis unfolding st' by (rule flat_ShapeSegment_remove)
qed

lemma flat_FlatSegment_advance:
  assumes "flatSegmentsHaveNoHeight st" and "FlatSegment_advance K len this st = Inr st'"
  shows "flatSegmentsHaveNoHeight st'"
proof -
  from assms(2) obtain st1 where st': "st' = modify this (updateAttachmentSiteLocation K) st1"
    and body: "(case getNextShapeSegment st this of
              None \<Rightarrow> advanceNoInput K len this (getPreviousShapeSegment st this) st
            | Some inp \<Rightarrow>
                if getContainedLength (heap st inp) > len
                then advancePull K len this (getPreviousShapeSegment st this) inp st
                else advanceDrain K len this (getPreviousShapeSegment st this) inp st) = Inr st1"
    by (auto simp: FlatSegment_advance_def bindE_def Let_def split: sum.splits)
  from body assms(1) have "flatSegmentsHaveNoHeight st1"
    by (auto split: option.splits if_splits
        dest: flat_advanceNoInput flat_advancePull flat_advanceDrain)
  then show ?thesis unfolding st' by (simp add: flat_modify)
qed

lemma flat_FlatSegment_advanceAndRemove:
  "flatSegmentsHaveNoHeight st \<Longrightarrow> flatSegmentsHaveNoHeight (FlatSegment_advanceAndRemove K len this st)"
  by (auto simp: FlatSegment_advanceAndRemove_def Let_def flat_modify flat_FlatSegment_remove
      flat_ShapeSegment_remove split: option.splits)

lemmas example_defs = twoSegments_def storeOf_def flatSegment_def squareSegment_def exampleParams_def

lemmas op_defs = FlatSegment_advance_def advanceNoInput_def advancePull_def advanceDrain_def
  addToOutput_def ShapeSegment_add_def ShapeSegment_remove_def FlatSegment_add_def
  FlatSegment_remove_def SquareSegment_add_def SquareSegment_remove_def SquareSegment_new_def
  FlatSegment_new_def maxOutLength_def dropIfEmpty_def insertAfterShapeSegment_def
  insertBeforeShapeSegment_def getPreviousShapeSegment_def getNextShapeSegment_def
  bindE_def modify_def alloc_def ShapeSegment_init_def setCapacity_def splice1_def
  getUpperLeftCornerPos_def getLowerRightCornerPos_def

text \<open>
  Claim C10. A flat segment is constructed with bounds of height zero, and while every
  flat segment of the store has height zero, it still has after \<open>add\<close>, \<open>remove\<close>,
  \<open>advance\<close>, \<open>advanceAndRemove\<close> and \<open>maxOutLength\<close> on any segment; the contained length
  of a flat segment is the width of its bounds.
\<close>

theorem flat_segments_stay_flat:
  "getHeight (bounds (heap (snd (FlatSegment_new K origin st)) (fst (FlatSegment_new K origin st)))) = 0 \<and>
   kind (heap (snd (FlatSegment_new K origin st)) (fst (FlatSegment_new K origin st))) = Flat \<and>
   (kind s = Flat \<longrightarrow> getContainedLength s = getWidth (bounds s)) \<and>
   (flatSegmentsHaveNoHeight st \<longrightarrow>
      flatSegmentsHaveNoHeight (snd (FlatSegment_new K origin st)) \<and>
      (\<forall>st'. FlatSegment_add K len this st = Inr st' \<longrightarrow> flatSegmentsHaveNoHeight st') \<and>
      flatSegmentsHaveNoHeight (FlatSegment_remove K len this st) \<and>
      (\<forall>st'. FlatSegment_advance K len this st = Inr st' \<longrightarrow> flatSegmentsHaveNoHeight st') \<and>
      flatSegmentsHaveNoHeight (FlatSegment_advanceAndRemove K len this st) \<and>
      flatSegmentsHaveNoHeight (maxOutLength K this st))"
proof -
  have new: "getHeight (bounds (heap (snd (FlatSegment_new K origin st)) (fst (FlatSegment_new K origin st)))) = 0 \<and>
      kind (heap (snd (FlatSegment_new K origin st)) (fst (FlatSegment_new K origin st))) = Flat"
    by (simp add: FlatSegment_new_def alloc_def ShapeSegment_init_def updateAttachmentSiteLocation_def
        setMinMax_def getHeight_def)
  have width: "kind s = Flat \<longrightarrow> getContainedLength s = getWidth (bounds s)"
    by (simp add: getContainedLength_def)
  have "flatSegmentsHaveNoHeight (snd (FlatSegment_new K origin st))" if "flatSegmentsHaveNoHeight st"
    unfolding FlatSegment_new_def using that by (intro flat_alloc) simp_all
  with new width show ?thesis
    by (auto dest: flat_FlatSegment_add flat_FlatSegment_advance
        simp: flat_FlatSegment_remove flat_FlatSegment_advanceAndRemove flat_maxOutLength)
qed

theorem flat_segments_stay_flat_witness:
  "flatSegmentsHaveNoHeight twoSegments \<and>
   (\<exists>st'. FlatSegment_advance exampleParams 100 0 twoSegments = Inr st' \<and>
      shapeSegments st' = [2, 0, 1] \<and> flatSegmentsHaveNoHeight st' \<and>
      getHeight (bounds (heap st' 0)) = 0 \<and> getHeight (bounds (heap st' 2)) = 0) \<and>
   flatSegmentsHaveNoHeight (FlatSegment_remove exampleParams 10 0 twoSegments) \<and>
   flatSegmentsHaveNoHeight (maxOutLength exampleParams 0 twoSegments)"
proof -
  have inv: "flatSegmentsHaveNoHeight twoSegments"
    by (auto simp: flatSegmentsHaveNoHeight_def flatHasNoHeight_def example_defs getHeight_def
        setMinMax_def less_Suc_eq numeral_2_eq_2)
  obtain st' where adv: "FlatSegment_advance exampleParams 100 0 twoSegments = Inr st'"
    and l: "shapeSegments st' = [2, 0, 1]"
    and h: "getHeight (bounds (heap st' 0)) = 0" "getHeight (bounds (heap st' 2)) = 0"
    by (simp add: example_defs op_defs seg_defs Let_def getHeight_def)
  from flat_segments_stay_flat [of exampleParams "\<lparr>vx = 0, vy = 0\<rparr>" twoSegments
      "flatSegment 0 150 200" 100 0] inv adv
  have "flatSegmentsHaveNoHeight st'"
    and "flatSegmentsHaveNoHeight (FlatSegment_remove exampleParams 100 0 twoSegments)"
    and "flatSegmentsHaveNoHeight (maxOutLength exampleParams 0 twoSegments)"
    by blast+
  moreover from flat_segments_stay_flat [of exampleParams "\<lparr>vx = 0, vy = 0\<rparr>" twoSegments
      "flatSegment 0 150 200" 10 0] inv
  have "flatSegmentsHaveNoHeight (FlatSegment_remove exampleParams 10 0 twoSegments)"
    by blast
  ultimately show ?thesis using inv adv l h by blast
qed

end
